theory Spec2Isabelle
  imports Main "HOL-Library.Sublist"
begin

section \<open>JavaScript strings\<close>

text \<open>
  The generator in \<^verbatim>\<open>src/lib/cover-letter-generator.ts\<close> works on JavaScript strings,
  sequences of UTF-16 code units. A HOL character stands for the code unit of the same
  number, so the strings of the model are the JavaScript strings whose code units are
  all below 256 (ASCII and the Latin-1 supplement); other strings are beyond the model.
  On these strings the operations are the ones of JavaScript. White space, for
  \<^verbatim>\<open>trim\<close> and the class \<^verbatim>\<open>\s\<close>, is tab, line feed, vertical tab, form feed,
  carriage return, space and the no-break space U+00A0. \<^verbatim>\<open>toLowerCase\<close> maps A-Z
  and the capital letters U+00C0 to U+00DE (but the sign U+00D7) to their small letters.
  \<^verbatim>\<open>toUpperCase\<close> maps the small letters back and turns U+00DF into SS; the capitals
  of U+00B5 and U+00FF lie beyond code unit 255, and the model leaves these two letters
  in place (they reach \<^verbatim>\<open>toUpperCase\<close> only inside a name or a company name, in the
  creative template).
  The value \<^verbatim>\<open>undefined\<close> is \<open>None\<close>; a value that is a string or undefined has
  type \<open>string option\<close>.
\<close>

definition uppers :: string where
  "uppers = ''ABCDEFGHIJKLMNOPQRSTUVWXYZ''"

definition lowers :: string where
  "lowers = ''abcdefghijklmnopqrstuvwxyz''"

definition digits :: string where
  "digits = ''0123456789''"

definition latin_uppers :: string where
  "latin_uppers =
     [CHR 0xC0, CHR 0xC1, CHR 0xC2, CHR 0xC3, CHR 0xC4, CHR 0xC5, CHR 0xC6, CHR 0xC7,
      CHR 0xC8, CHR 0xC9, CHR 0xCA, CHR 0xCB, CHR 0xCC, CHR 0xCD, CHR 0xCE, CHR 0xCF,
      CHR 0xD0, CHR 0xD1, CHR 0xD2, CHR 0xD3, CHR 0xD4, CHR 0xD5, CHR 0xD6, CHR 0xD8,
      CHR 0xD9, CHR 0xDA, CHR 0xDB, CHR 0xDC, CHR 0xDD, CHR 0xDE]"

definition latin_lowers :: string where
  "latin_lowers =
     [CHR 0xE0, CHR 0xE1, CHR 0xE2, CHR 0xE3, CHR 0xE4, CHR 0xE5, CHR 0xE6, CHR 0xE7,
      CHR 0xE8, CHR 0xE9, CHR 0xEA, CHR 0xEB, CHR 0xEC, CHR 0xED, CHR 0xEE, CHR 0xEF,
      CHR 0xF0, CHR 0xF1, CHR 0xF2, CHR 0xF3, CHR 0xF4, CHR 0xF5, CHR 0xF6, CHR 0xF8,
      CHR 0xF9, CHR 0xFA, CHR 0xFB, CHR 0xFC, CHR 0xFD, CHR 0xFE]"

definition lower_char :: "char \<Rightarrow> char" where
  "lower_char c =
     (case map_of (zip (uppers @ latin_uppers) (lowers @ latin_lowers)) c of
        Some d \<Rightarrow> d
      | None \<Rightarrow> c)"

text \<open>The capital of a letter, when it is one code unit of the alphabet; the letter
  itself otherwise. Matching with the \<^verbatim>\<open>i\<close> flag compares characters by this.\<close>

definition upper_char :: "char \<Rightarrow> char" where
  "upper_char c =
     (case map_of (zip (lowers @ latin_lowers) (uppers @ latin_uppers)) c of
        Some d \<Rightarrow> d
      | None \<Rightarrow> c)"

definition toLowerCase :: "string \<Rightarrow> string" where
  "toLowerCase s = map lower_char s"

definition toUpperCase :: "string \<Rightarrow> string" where
  "toUpperCase s = concat (map (\<lambda>c. if c = CHR 0xDF then ''SS'' else [upper_char c]) s)"

definition is_ws :: "char \<Rightarrow> bool" where
  "is_ws c = (c \<in> set [CHR 0x09, CHR 0x0A, CHR 0x0B, CHR 0x0C, CHR 0x0D, CHR 0x20, CHR 0xA0])"

definition trim :: "string \<Rightarrow> string" where
  "trim s = rev (dropWhile is_ws (rev (dropWhile is_ws s)))"

fun starts_with :: "string \<Rightarrow> string \<Rightarrow> bool" where
  "starts_with s [] = True"
| "starts_with [] (p # ps) = False"
| "starts_with (c # cs) (p # ps) = (c = p \<and> starts_with cs ps)"

text \<open>\<^verbatim>\<open>s.includes(sub)\<close>: \<open>sub\<close> occurs in \<open>s\<close> as a contiguous substring.\<close>

fun js_includes :: "string \<Rightarrow> string \<Rightarrow> bool" where
  "js_includes [] sub = (sub = [])"
| "js_includes (c # cs) sub = (starts_with (c # cs) sub \<or> js_includes cs sub)"

text \<open>\<^verbatim>\<open>s.split(sep)\<close> for a separator of one character. The result is never empty:
  the empty string splits into one empty piece.\<close>

fun split_char :: "char \<Rightarrow> string \<Rightarrow> string list" where
  "split_char sep [] = [[]]"
| "split_char sep (c # cs) =
     (if c = sep then [] # split_char sep cs
      else (case split_char sep cs of p # ps \<Rightarrow> (c # p) # ps | [] \<Rightarrow> [[c]]))"

fun join :: "string \<Rightarrow> string list \<Rightarrow> string" where
  "join sep [] = []"
| "join sep [x] = x"
| "join sep (x # y # ys) = x @ sep @ join sep (y # ys)"

text \<open>\<^verbatim>\<open>xs[i]\<close> is undefined out of range; \<^verbatim>\<open>a || b\<close> yields \<open>b\<close> when \<open>a\<close> is
  undefined or the empty string; a template literal turns undefined into the text
  \<^verbatim>\<open>undefined\<close>.\<close>

definition js_nth :: "string list \<Rightarrow> nat \<Rightarrow> string option" where
  "js_nth xs i = (if i < length xs then Some (xs ! i) else None)"

definition truthy :: "string option \<Rightarrow> bool" where
  "truthy v = (case v of None \<Rightarrow> False | Some s \<Rightarrow> s \<noteq> [])"

definition js_or :: "string option \<Rightarrow> string option \<Rightarrow> string option" where
  "js_or a b = (if truthy a then a else b)"

definition ToString :: "string option \<Rightarrow> string" where
  "ToString v = (case v of None \<Rightarrow> ''undefined'' | Some s \<Rightarrow> s)"

text \<open>A template literal is the list of its pieces, literal text and interpolated values
  alike; its value is the concatenation of their string forms. A string that was itself
  built by a template literal is spliced into another one as its pieces.\<close>

definition template :: "string option list \<Rightarrow> string" where
  "template ps = concat (map ToString ps)"

text \<open>Numbers: the decimal form of a natural number, and \<^verbatim>\<open>parseInt\<close> on a string of
  decimal digits (the only strings the generator parses). JavaScript numbers are exact
  up to \<open>2^53\<close>; larger values are outside the model.\<close>

definition digit_char :: "nat \<Rightarrow> char" where
  "digit_char d = digits ! d"

function show_nat :: "nat \<Rightarrow> string" where
  "show_nat n = (if n < 10 then [digit_char n] else show_nat (n div 10) @ [digit_char (n mod 10)])"
  by pat_completeness auto
termination
  by (relation "measure id") auto

declare show_nat.simps [simp del]

fun digit_val :: "string \<Rightarrow> char \<Rightarrow> nat" where
  "digit_val [] c = 0"
| "digit_val (d # ds) c = (if c = d then 0 else Suc (digit_val ds c))"

definition parseInt :: "string \<Rightarrow> nat" where
  "parseInt s = foldl (\<lambda>acc c. 10 * acc + digit_val digits c) 0 s"

section \<open>Regular expressions\<close>

text \<open>
  The regular expressions of the generator, as syntax trees, and a backtracking matcher
  that returns every way to match from a position, in the order in which the JavaScript
  matcher tries them: the first element is the match JavaScript reports.
  A position is the text before it (reversed), the text after it, and the captures so far.
\<close>

datatype regex =
    Eps
  | Ch char
  | OneOf string
  | NoneOf string
  | Dot
  | Bol
  | Eol
  | WordB
  | Seq regex regex
  | Alt regex regex
  | Star regex
  | LazyStar regex
  | Grp nat regex

type_synonym mstate = "string \<times> string \<times> (nat \<times> string) list"

definition remaining :: "mstate \<Rightarrow> string" where
  "remaining s = fst (snd s)"

definition canon :: "bool \<Rightarrow> char \<Rightarrow> char" where
  "canon ic c = (if ic then upper_char c else c)"

definition word_char :: "char \<Rightarrow> bool" where
  "word_char c = (c \<in> set (lowers @ uppers @ digits @ ''_''))"

definition line_terminator :: "char \<Rightarrow> bool" where
  "line_terminator c = (c = CHR 0x0A \<or> c = CHR 0x0D)"

definition step_char :: "(char \<Rightarrow> bool) \<Rightarrow> mstate \<Rightarrow> mstate list" where
  "step_char P s =
     (case s of (seen, rest, caps) \<Rightarrow>
        (case rest of [] \<Rightarrow> [] | c # cs \<Rightarrow> if P c then [(c # seen, cs, caps)] else []))"

text \<open>A quantified sub-expression: an iteration that consumes nothing is rejected, the
  greedy form tries one more iteration before stopping, the lazy form stops first.\<close>

function star :: "(mstate \<Rightarrow> mstate list) \<Rightarrow> bool \<Rightarrow> mstate \<Rightarrow> mstate list" where
  "star f greedy s =
     (let again = concat (map (star f greedy)
                    (filter (\<lambda>s'. length (remaining s') < length (remaining s)) (f s)))
      in if greedy then again @ [s] else s # again)"
  by pat_completeness auto
termination
  by (relation "measure (\<lambda>(f, g, s). length (remaining s))") auto

declare star.simps [simp del]

fun rmatch :: "bool \<Rightarrow> regex \<Rightarrow> mstate \<Rightarrow> mstate list" where
  "rmatch ic Eps s = [s]"
| "rmatch ic (Ch c) s = step_char (\<lambda>x. canon ic x = canon ic c) s"
| "rmatch ic (OneOf cs) s = step_char (\<lambda>x. \<exists>a \<in> set cs. canon ic a = canon ic x) s"
| "rmatch ic (NoneOf cs) s = step_char (\<lambda>x. \<not> (\<exists>a \<in> set cs. canon ic a = canon ic x)) s"
| "rmatch ic Dot s = step_char (\<lambda>x. \<not> line_terminator x) s"
| "rmatch ic Bol s = (case s of (seen, rest, caps) \<Rightarrow> if seen = [] then [s] else [])"
| "rmatch ic Eol s = (case s of (seen, rest, caps) \<Rightarrow> if rest = [] then [s] else [])"
| "rmatch ic WordB s =
     (case s of (seen, rest, caps) \<Rightarrow>
        if (seen \<noteq> [] \<and> word_char (hd seen)) \<noteq> (rest \<noteq> [] \<and> word_char (hd rest))
        then [s] else [])"
| "rmatch ic (Seq r1 r2) s = concat (map (rmatch ic r2) (rmatch ic r1 s))"
| "rmatch ic (Alt r1 r2) s = rmatch ic r1 s @ rmatch ic r2 s"
| "rmatch ic (Star r) s = star (rmatch ic r) True s"
| "rmatch ic (LazyStar r) s = star (rmatch ic r) False s"
| "rmatch ic (Grp n r) s =
     map (\<lambda>(seen', rest', caps').
            (seen', rest', (n, take (length (remaining s) - length rest') (remaining s)) # caps'))
         (rmatch ic r s)"

text \<open>Derived forms: literal text, \<^verbatim>\<open>r?\<close>, \<^verbatim>\<open>r+\<close>, \<^verbatim>\<open>r{n}\<close>, \<^verbatim>\<open>r{m,n}\<close>,
  \<^verbatim>\<open>a|b|c\<close>, and the classes \<^verbatim>\<open>\d\<close> and \<^verbatim>\<open>\s\<close>.\<close>

definition Str :: "string \<Rightarrow> regex" where
  "Str s = foldr (\<lambda>c r. Seq (Ch c) r) s Eps"

definition Opt :: "regex \<Rightarrow> regex" where
  "Opt r = Alt r Eps"

definition Plus :: "regex \<Rightarrow> regex" where
  "Plus r = Seq r (Star r)"

fun Times :: "nat \<Rightarrow> regex \<Rightarrow> regex" where
  "Times 0 r = Eps"
| "Times (Suc n) r = Seq r (Times n r)"

fun UpTo :: "nat \<Rightarrow> regex \<Rightarrow> regex" where
  "UpTo 0 r = Eps"
| "UpTo (Suc n) r = Opt (Seq r (UpTo n r))"

fun Alts :: "regex list \<Rightarrow> regex" where
  "Alts [] = Eps"
| "Alts [r] = r"
| "Alts (r # q # rs) = Alt r (Alts (q # rs))"

definition Digit :: regex where
  "Digit = OneOf digits"

definition whitespace :: string where
  "whitespace = [CHR 0x09, CHR 0x0A, CHR 0x0B, CHR 0x0C, CHR 0x0D, CHR 0x20, CHR 0xA0]"

definition Space :: regex where
  "Space = OneOf whitespace"

text \<open>A regular expression object is its pattern and its \<^verbatim>\<open>i\<close> flag. The \<^verbatim>\<open>g\<close> flag
  only changes what \<^verbatim>\<open>match\<close> returns, and the generator reads element 0 of the result
  in both cases: the text of the first match.\<close>

record regexp =
  pattern :: regex
  ignoreCase :: bool

record match_result =
  matched :: string
  groups :: "(nat \<times> string) list"

fun search_from :: "regexp \<Rightarrow> string \<Rightarrow> string \<Rightarrow> match_result option" where
  "search_from re seen [] =
     (case rmatch (ignoreCase re) (pattern re) (seen, [], []) of
        [] \<Rightarrow> None
      | m # ms \<Rightarrow> Some \<lparr>matched = [], groups = snd (snd m)\<rparr>)"
| "search_from re seen (c # cs) =
     (case rmatch (ignoreCase re) (pattern re) (seen, c # cs, []) of
        [] \<Rightarrow> search_from re (c # seen) cs
      | m # ms \<Rightarrow> Some \<lparr>matched = take (length (c # cs) - length (remaining m)) (c # cs),
                          groups = snd (snd m)\<rparr>)"

text \<open>\<^verbatim>\<open>text.match(re)\<close>: the leftmost match, or None for \<^verbatim>\<open>null\<close>;
  \<^verbatim>\<open>m[n]\<close>: capture group \<open>n\<close>, undefined when the group took no part;
  \<^verbatim>\<open>re.test(text)\<close>.\<close>

definition js_match :: "string \<Rightarrow> regexp \<Rightarrow> match_result option" where
  "js_match text re = search_from re [] text"

definition group :: "match_result \<Rightarrow> nat \<Rightarrow> string option" where
  "group m n = map_of (groups m) n"

definition js_test :: "regexp \<Rightarrow> string \<Rightarrow> bool" where
  "js_test re text = (js_match text re \<noteq> None)"

text \<open>\<^verbatim>\<open>text.split(re)\<close>, for a pattern without capture groups: the text is cut at every
  match found while scanning from the left; a match that is empty and starts where the
  last piece began is skipped; the text after the last match is the last piece.\<close>

function split_loop :: "regexp \<Rightarrow> string \<Rightarrow> string \<Rightarrow> string \<Rightarrow> string list" where
  "split_loop re seen cur [] = [rev cur]"
| "split_loop re seen cur (c # cs) =
     (case rmatch (ignoreCase re) (pattern re) (seen, c # cs, []) of
        [] \<Rightarrow> split_loop re (c # seen) (c # cur) cs
      | m # ms \<Rightarrow>
          if length (remaining m) < length (c # cs)
          then rev cur # split_loop re (fst m) [] (remaining m)
          else if cur = [] then split_loop re (c # seen) (c # cur) cs
          else rev cur # split_loop re (c # seen) [c] cs)"
  by pat_completeness auto
termination
  by (relation "measure (\<lambda>(re, seen, cur, rest). length rest)") auto

definition split_re :: "regexp \<Rightarrow> string \<Rightarrow> string list" where
  "split_re re s =
     (if s = [] then (if rmatch (ignoreCase re) (pattern re) ([], [], []) = [] then [[]] else [])
      else split_loop re [] [] s)"

text \<open>\<^verbatim>\<open>text.replace(re, rep)\<close> for a pattern with the \<^verbatim>\<open>g\<close> flag and a replacement
  without \<^verbatim>\<open>$\<close> references: every match is replaced, scanning from the left.\<close>

function replace_loop :: "regexp \<Rightarrow> string \<Rightarrow> string \<Rightarrow> string \<Rightarrow> string" where
  "replace_loop re rep seen [] =
     (case rmatch (ignoreCase re) (pattern re) (seen, [], []) of [] \<Rightarrow> [] | m # ms \<Rightarrow> rep)"
| "replace_loop re rep seen (c # cs) =
     (case rmatch (ignoreCase re) (pattern re) (seen, c # cs, []) of
        [] \<Rightarrow> c # replace_loop re rep (c # seen) cs
      | m # ms \<Rightarrow>
          if length (remaining m) < length (c # cs)
          then rep @ replace_loop re rep (fst m) (remaining m)
          else rep @ c # replace_loop re rep (c # seen) cs)"
  by pat_completeness auto
termination
  by (relation "measure (\<lambda>(re, rep, seen, rest). length rest)") auto

definition replace_all :: "regexp \<Rightarrow> string \<Rightarrow> string \<Rightarrow> string" where
  "replace_all re rep s = replace_loop re rep [] s"

fun Seqs :: "regex list \<Rightarrow> regex" where
  "Seqs [] = Eps"
| "Seqs [r] = r"
| "Seqs (r # q # rs) = Seq r (Seqs (q # rs))"

text \<open>The pattern that \<^verbatim>\<open>new RegExp(source)\<close> builds from the text of a keyword: a dot in
  the keyword is the wildcard, every other character of the keyword lists stands for
  itself.\<close>

definition keyword_regex :: "string \<Rightarrow> regex" where
  "keyword_regex kw = Seqs (map (\<lambda>c. if c = CHR ''.'' then Dot else Ch c) kw)"

section \<open>Data model\<close>

record ResumeInfo =
  name :: string
  email :: string
  phone :: string
  address :: string
  skills :: "string list"
  experience :: string
  education :: string
  workHistory :: "string list"
  bio :: string

record JobAnalysis =
  requirements :: "string list"
  matchedSkills :: "string list"
  keyResponsibilities :: "string list"
  companyInsights :: string

record jobInfo =
  companyName :: string
  jobTitle :: string
  jobDescription :: string

text \<open>The \<^verbatim>\<open>userProfile\<close> argument has type \<^verbatim>\<open>any\<close>; the extractor reads five
  properties of it, each of which may be missing. The argument itself may be
  \<^verbatim>\<open>null\<close> or \<^verbatim>\<open>undefined\<close> (\<open>None\<close>).\<close>

record userProfile =
  profile_name :: "string option"
  profile_email :: "string option"
  profile_phone :: "string option"
  profile_address :: "string option"
  profile_bio :: "string option"

text \<open>\<^verbatim>\<open>userProfile?.field || ""\<close>\<close>

definition profile_field :: "userProfile option \<Rightarrow> (userProfile \<Rightarrow> string option) \<Rightarrow> string" where
  "profile_field up f =
     (case up of None \<Rightarrow> [] | Some p \<Rightarrow> (case f p of None \<Rightarrow> [] | Some s \<Rightarrow> s))"

section \<open>extractResumeInfo\<close>

subsection \<open>Name, email, phone, address\<close>

definition nameRegex :: regexp where
  "nameRegex =
     \<lparr>pattern = Grp 1 (Seqs [OneOf uppers, Plus (OneOf lowers), Ch CHR '' '',
                              OneOf uppers, Plus (OneOf lowers)]),
      ignoreCase = False\<rparr>"

definition extract_name :: "string \<Rightarrow> userProfile option \<Rightarrow> string" where
  "extract_name resumeText up =
     (let n = profile_field up profile_name in
      if n = [] then
        (case js_match resumeText nameRegex of
           None \<Rightarrow> n
         | Some nameMatch \<Rightarrow>
             (case group nameMatch 1 of
                None \<Rightarrow> n
              | Some g \<Rightarrow> if g \<noteq> [] then g else n))
      else n)"

definition emailRegex :: regexp where
  "emailRegex =
     \<lparr>pattern = Grp 1 (Seqs [Plus (OneOf (lowers @ uppers @ digits @ ''._-'')), Ch CHR ''@'',
                              Plus (OneOf (lowers @ uppers @ digits @ ''._-'')), Ch CHR ''.'',
                              Plus (OneOf (lowers @ uppers @ digits @ ''_-''))]),
      ignoreCase = True\<rparr>"

definition extract_email :: "string \<Rightarrow> userProfile option \<Rightarrow> string" where
  "extract_email resumeText up =
     (let e = profile_field up profile_email in
      if e = [] then
        (case js_match resumeText emailRegex of
           None \<Rightarrow> e
         | Some emailMatches \<Rightarrow> matched emailMatches)
      else e)"

text \<open>\<^verbatim>\<open>[-.\s]\<close>\<close>

definition Sep :: regex where
  "Sep = OneOf (''-.'' @ whitespace)"

definition phoneRegexes :: "regexp list" where
  "phoneRegexes =
     [\<lparr>pattern = Seqs [Opt (Grp 1 (Seqs [Ch CHR ''+'', Digit, UpTo 2 Digit, Opt Sep])),
                       Opt (Grp 2 (Seqs [Opt (Ch CHR ''(''), Times 3 Digit, Opt (Ch CHR '')''),
                                         Opt Sep])),
                       Times 3 Digit, Opt Sep, Times 4 Digit],
       ignoreCase = False\<rparr>,
      \<lparr>pattern = Times 10 Digit, ignoreCase = False\<rparr>,
      \<lparr>pattern = Seqs [Times 3 Digit, Opt Sep, Times 3 Digit, Opt Sep, Times 4 Digit],
       ignoreCase = False\<rparr>,
      \<lparr>pattern = Seqs [Ch CHR ''('', Times 3 Digit, Ch CHR '')'', Star Space,
                       Times 3 Digit, Opt Sep, Times 4 Digit],
       ignoreCase = False\<rparr>]"

text \<open>The loop over the phone patterns stops at the first pattern that matches.\<close>

fun phone_loop :: "regexp list \<Rightarrow> string \<Rightarrow> string \<Rightarrow> string" where
  "phone_loop [] resumeText ph = ph"
| "phone_loop (regex # rest) resumeText ph =
     (case js_match resumeText regex of
        None \<Rightarrow> phone_loop rest resumeText ph
      | Some phoneMatches \<Rightarrow> matched phoneMatches)"

definition extract_phone :: "string \<Rightarrow> userProfile option \<Rightarrow> string" where
  "extract_phone resumeText up =
     (let ph = profile_field up profile_phone in
      if ph = [] then phone_loop phoneRegexes resumeText ph else ph)"

definition zipRegex :: regexp where
  "zipRegex =
     \<lparr>pattern = Seqs [WordB, Times 2 (OneOf uppers), Plus Space, Times 5 Digit, WordB],
      ignoreCase = False\<rparr>"

definition address_line :: "string \<Rightarrow> bool" where
  "address_line line =
     (js_includes line ''Street'' \<or> js_includes line ''Avenue'' \<or> js_includes line ''Road'' \<or>
      js_includes line ''Lane'' \<or> js_includes line ''Drive'' \<or> js_includes line ''Blvd'' \<or>
      js_includes line ''NY'' \<or> js_includes line ''New York'' \<or> js_test zipRegex line)"

definition extract_address :: "string \<Rightarrow> userProfile option \<Rightarrow> string" where
  "extract_address resumeText up =
     (let a = profile_field up profile_address in
      if a = [] then
        (case filter address_line (split_char CHR 0x0A resumeText) of
           [] \<Rightarrow> a
         | l # ls \<Rightarrow> trim l)
      else a)"

subsection \<open>Skills\<close>

definition skillsKeywords :: "string list" where
  "skillsKeywords =
    [''Python'', ''R'', ''SQL'', ''Java'', ''JavaScript'', ''TypeScript'', ''C++'', ''C#'',
     ''PHP'', ''Ruby'', ''HTML'', ''CSS'', ''React'', ''Angular'', ''Vue.js'', ''Node.js'',
     ''Express'', ''Django'', ''Flask'', ''Spring Boot'', ''ASP.NET'', ''Ruby on Rails'',
     ''jQuery'', ''Bootstrap'', ''Tailwind CSS'', ''Data Analysis'', ''Data Science'',
     ''Machine Learning'', ''Deep Learning'', ''NLP'', ''Computer Vision'', ''Statistics'',
     ''Statistical Analysis'', ''Hypothesis Testing'', ''A/B Testing'', ''Data Mining'',
     ''Data Visualization'', ''Data Modeling'', ''ETL'', ''Data Warehousing'',
     ''Big Data'', ''Data Engineering'', ''Data Pipelines'', ''Tableau'', ''Power BI'',
     ''Excel'', ''Google Sheets'', ''Looker'', ''Qlik'', ''D3.js'', ''SPSS'', ''SAS'',
     ''MATLAB'', ''Pandas'', ''NumPy'', ''SciPy'', ''Scikit-learn'', ''TensorFlow'',
     ''PyTorch'', ''Keras'', ''Hadoop'', ''Spark'', ''Hive'', ''Pig'', ''Kafka'',
     ''Airflow'', ''AWS'', ''Azure'', ''Google Cloud'', ''Docker'', ''Kubernetes'',
     ''Jenkins'', ''CI/CD'', ''Git'', ''GitHub'', ''GitLab'', ''Bitbucket'', ''Terraform'',
     ''Ansible'', ''Puppet'', ''Chef'', ''MySQL'', ''PostgreSQL'', ''MongoDB'', ''Oracle'',
     ''SQL Server'', ''SQLite'', ''Redis'', ''Cassandra'', ''DynamoDB'', ''Elasticsearch'',
     ''Neo4j'', ''GraphQL'', ''NoSQL'', ''Communication'', ''Teamwork'', ''Leadership'',
     ''Problem Solving'', ''Critical Thinking'', ''Time Management'',
     ''Project Management'', ''Agile'', ''Scrum'', ''Kanban'', ''JIRA'', ''Presentation'',
     ''Research'', ''Analysis'', ''Attention to Detail'', ''Creativity'']"

definition defaultSkills :: "string list" where
  "defaultSkills =
     [''Data Analysis'', ''Python'', ''SQL'', ''Machine Learning'', ''Data Visualization'']"

definition extract_skills :: "string \<Rightarrow> string list" where
  "extract_skills resumeText =
     (let resumeTextLower = toLowerCase resumeText;
          found = filter (\<lambda>skill. js_includes resumeTextLower (toLowerCase skill)) skillsKeywords
      in if length found = 0 then found @ defaultSkills else found)"

subsection \<open>Years of experience\<close>

text \<open>\<^verbatim>\<open>(?:years?|yrs?)\<close>\<close>

definition Years :: regex where
  "Years = Alt (Seq (Str ''year'') (Opt (Ch CHR ''s''))) (Seq (Str ''yr'') (Opt (Ch CHR ''s'')))"

definition expRegexes :: "regexp list" where
  "expRegexes =
     [\<lparr>pattern = Seqs [Grp 1 (Plus Digit), Star Space, Years,
                       Opt (Seq (Star Space) (Str ''of'')), Star Space, Str ''experience''],
       ignoreCase = True\<rparr>,
      \<lparr>pattern = Seqs [Str ''experience'', Star Space, Opt (Alt (Str ''of'') (Ch CHR '':'')),
                       Star Space, Grp 1 (Plus Digit), Star Space, Years],
       ignoreCase = True\<rparr>,
      \<lparr>pattern = Seqs [Grp 1 (Plus Digit), Ch CHR ''+'', Star Space, Years],
       ignoreCase = True\<rparr>]"

fun exp_loop :: "regexp list \<Rightarrow> string \<Rightarrow> string" where
  "exp_loop [] resumeText = []"
| "exp_loop (regex # rest) resumeText =
     (case js_match resumeText regex of
        None \<Rightarrow> exp_loop rest resumeText
      | Some expMatch \<Rightarrow>
          (case group expMatch 1 of
             None \<Rightarrow> exp_loop rest resumeText
           | Some g \<Rightarrow>
               if g \<noteq> [] then template [Some (show_nat (parseInt g)), Some '' years of experience'']
               else exp_loop rest resumeText))"

definition extract_experience :: "string \<Rightarrow> string" where
  "extract_experience resumeText =
     (let e = exp_loop expRegexes resumeText in
      if e = [] then ''experienced professional'' else e)"

subsection \<open>Education\<close>

definition educationKeywords :: "string list" where
  "educationKeywords =
    [''Master'', ''Masters'', ''MS'', ''M.S.'', ''MBA'', ''Bachelor'', ''Bachelors'',
     ''BS'', ''B.S.'', ''PhD'', ''Ph.D.'', ''Doctorate'', ''Degree'', ''University'',
     ''College'', ''School'', ''Stony Brook'', ''Computer Science'', ''Data Science'',
     ''Statistics'', ''Mathematics'']"

definition educationRegex :: regexp where
  "educationRegex =
     \<lparr>pattern = Grp 1 (Seq (Alts (map keyword_regex educationKeywords)) (Star (NoneOf ''.''))),
      ignoreCase = True\<rparr>"

definition education_line :: "string \<Rightarrow> bool" where
  "education_line line =
     (\<exists>keyword \<in> set educationKeywords. js_includes (toLowerCase line) (toLowerCase keyword))"

definition education_by_line :: "string \<Rightarrow> string" where
  "education_by_line resumeText =
     (case filter education_line (split_char CHR 0x0A resumeText) of
        [] \<Rightarrow> []
      | l # ls \<Rightarrow> trim l)"

definition extract_education :: "string \<Rightarrow> string" where
  "extract_education resumeText =
     (case js_match resumeText educationRegex of
        None \<Rightarrow> education_by_line resumeText
      | Some educationMatch \<Rightarrow>
          (case group educationMatch 1 of
             None \<Rightarrow> education_by_line resumeText
           | Some g \<Rightarrow> if g \<noteq> [] then trim g else education_by_line resumeText))"

subsection \<open>Work history\<close>

definition workHistoryKeywords :: "string list" where
  "workHistoryKeywords = [''Experience'', ''Employment'', ''Work History'', ''Professional Experience'']"

definition workHistoryRegex :: regexp where
  "workHistoryRegex = \<lparr>pattern = Grp 1 (Alts (map keyword_regex workHistoryKeywords)), ignoreCase = True\<rparr>"

text \<open>\<^verbatim>\<open>/^(Education|Skills|Projects|References)/i\<close>\<close>

definition afterWorkRegex :: regexp where
  "afterWorkRegex =
     \<lparr>pattern = Seq Bol (Grp 1 (Alts [Str ''Education'', Str ''Skills'', Str ''Projects'',
                                         Str ''References''])),
      ignoreCase = True\<rparr>"

text \<open>The loop over the lines of the resume, with the variables it updates:
  \<^verbatim>\<open>inWorkSection\<close>, \<^verbatim>\<open>currentPosition\<close> and \<^verbatim>\<open>workHistory\<close>. A header line
  switches the section on and is skipped; inside the section a blank line closes the
  current position, any other line is added to it, and a line that starts with another
  section's header switches the section off after it was added.\<close>

fun work_loop :: "string list \<Rightarrow> bool \<Rightarrow> string \<Rightarrow> string list \<Rightarrow> string \<times> string list" where
  "work_loop [] inWorkSection currentPosition wh = (currentPosition, wh)"
| "work_loop (l # ls) inWorkSection currentPosition wh =
     (let line = trim l in
      if js_test workHistoryRegex line then work_loop ls True currentPosition wh
      else if inWorkSection then
        (let (currentPosition', wh') =
               (if line = [] \<and> currentPosition \<noteq> [] then ([], wh @ [currentPosition])
                else if line \<noteq> [] then
                  (if currentPosition = [] then line else currentPosition @ '' '' @ line, wh)
                else (currentPosition, wh))
         in work_loop ls (\<not> js_test afterWorkRegex line) currentPosition' wh')
      else work_loop ls inWorkSection currentPosition wh)"

definition workHistoryPlaceholder :: string where
  "workHistoryPlaceholder = ''Professional experience in data analysis and visualization''"

definition extract_workHistory :: "string \<Rightarrow> string list" where
  "extract_workHistory resumeText =
     (let (currentPosition, wh) = work_loop (split_char CHR 0x0A resumeText) False [] [];
          wh1 = (if currentPosition \<noteq> [] then wh @ [currentPosition] else wh);
          wh2 = take 3 wh1
      in if length wh2 = 0 then wh2 @ [workHistoryPlaceholder] else wh2)"

subsection \<open>Summary\<close>

definition summaryKeywords :: "string list" where
  "summaryKeywords = [''Summary'', ''Profile'', ''Objective'', ''About Me'']"

definition summaryRegex :: regexp where
  "summaryRegex = \<lparr>pattern = Grp 1 (Alts (map keyword_regex summaryKeywords)), ignoreCase = True\<rparr>"

text \<open>\<^verbatim>\<open>/^(Experience|Education|Skills|Projects|References)/i\<close>\<close>

definition afterSummaryRegex :: regexp where
  "afterSummaryRegex =
     \<lparr>pattern = Seq Bol (Grp 1 (Alts [Str ''Experience'', Str ''Education'', Str ''Skills'',
                                         Str ''Projects'', Str ''References''])),
      ignoreCase = True\<rparr>"

text \<open>The loop that collects the summary: it ends at the first blank line inside the
  section.\<close>

fun summary_loop :: "string list \<Rightarrow> bool \<Rightarrow> string \<Rightarrow> string" where
  "summary_loop [] inSummarySection summary = summary"
| "summary_loop (l # ls) inSummarySection summary =
     (let line = trim l in
      if js_test summaryRegex line then summary_loop ls True summary
      else if inSummarySection then
        (if line = [] then summary
         else summary_loop ls (\<not> js_test afterSummaryRegex line) (summary @ line @ '' ''))
      else summary_loop ls inSummarySection summary)"

definition extract_bio :: "string \<Rightarrow> userProfile option \<Rightarrow> string" where
  "extract_bio resumeText up =
     (let b = profile_field up profile_bio in
      if b = [] then trim (summary_loop (split_char CHR 0x0A resumeText) False []) else b)"

subsection \<open>The extractor\<close>

text \<open>The function is \<^verbatim>\<open>async\<close> and has no \<^verbatim>\<open>await\<close>: its promise resolves to the record
  below. Its calls of \<^verbatim>\<open>console.log\<close> do not change what it returns and are left out.\<close>

definition extractResumeInfo :: "string \<Rightarrow> userProfile option \<Rightarrow> ResumeInfo" where
  "extractResumeInfo resumeText up =
     \<lparr>name = extract_name resumeText up,
      email = extract_email resumeText up,
      phone = extract_phone resumeText up,
      address = extract_address resumeText up,
      skills = extract_skills resumeText,
      experience = extract_experience resumeText,
      education = extract_education resumeText,
      workHistory = extract_workHistory resumeText,
      bio = extract_bio resumeText up\<rparr>"

section \<open>analyzeJob\<close>

definition requirementsKeywords :: "string list" where
  "requirementsKeywords =
    [''python'', ''r'', ''sql'', ''java'', ''javascript'', ''typescript'', ''c++'', ''c#'',
     ''php'', ''ruby'', ''html'', ''css'', ''react'', ''angular'', ''vue.js'', ''node.js'',
     ''express'', ''django'', ''flask'', ''data analysis'', ''data science'',
     ''machine learning'', ''deep learning'', ''nlp'', ''computer vision'', ''statistics'',
     ''statistical analysis'', ''hypothesis testing'', ''a/b testing'', ''data mining'',
     ''data visualization'', ''data modeling'', ''etl'', ''tableau'', ''power bi'',
     ''excel'', ''google sheets'', ''looker'', ''qlik'', ''d3.js'', ''spss'', ''sas'',
     ''matlab'', ''pandas'', ''numpy'', ''scipy'', ''scikit-learn'', ''tensorflow'',
     ''aws'', ''azure'', ''google cloud'', ''docker'', ''kubernetes'', ''jenkins'',
     ''ci/cd'', ''git'', ''github'', ''gitlab'', ''bitbucket'', ''mysql'', ''postgresql'',
     ''mongodb'', ''oracle'', ''sql server'', ''sqlite'', ''redis'', ''communication'',
     ''teamwork'', ''leadership'', ''problem solving'', ''critical thinking'',
     ''time management'', ''project management'', ''agile'', ''scrum'', ''kanban'',
     ''jira'']"

definition find_requirements :: "string \<Rightarrow> string list" where
  "find_requirements jobDesc =
     (let jobDescLower = toLowerCase jobDesc
      in filter (\<lambda>req. js_includes jobDescLower req) requirementsKeywords)"

definition match_skills :: "string list \<Rightarrow> string list \<Rightarrow> string list" where
  "match_skills reqs resumeSkills =
     (let found =
            filter (\<lambda>skill. \<exists>req \<in> set reqs. toLowerCase req = toLowerCase skill) resumeSkills
      in if length found = 0 then found @ take 3 resumeSkills else found)"

text \<open>Every responsibility pattern is a trigger phrase, the lazy group \<^verbatim>\<open>(.*?)\<close> and
  \<^verbatim>\<open>(?:\.|$)\<close>, with the \<^verbatim>\<open>i\<close> flag; the company patterns have the same shape.\<close>

definition trigger :: "string \<Rightarrow> regexp" where
  "trigger phrase =
     \<lparr>pattern = Seqs [Str phrase, Grp 1 (LazyStar Dot), Alt (Ch CHR ''.'') Eol],
      ignoreCase = True\<rparr>"

definition responsibilityPatterns :: "regexp list" where
  "responsibilityPatterns =
     [trigger ''responsibilities include'', trigger ''you will'', trigger ''duties include'',
      trigger ''responsibilities:'', trigger ''what you'll do:'']"

text \<open>\<^verbatim>\<open>/[,;]/\<close> and \<^verbatim>\<open>/[.!?]+/\<close>\<close>

definition commaRegex :: regexp where
  "commaRegex = \<lparr>pattern = OneOf '',;'', ignoreCase = False\<rparr>"

definition sentenceRegex :: regexp where
  "sentenceRegex = \<lparr>pattern = Plus (OneOf ''.!?''), ignoreCase = False\<rparr>"

text \<open>The loop over the responsibility patterns. It has no \<^verbatim>\<open>break\<close>: every pattern is
  tried, and each one that matches with a non-empty group pushes its fragments.\<close>

fun responsibility_loop :: "regexp list \<Rightarrow> string \<Rightarrow> string list \<Rightarrow> string list" where
  "responsibility_loop [] jobDesc kr = kr"
| "responsibility_loop (p # ps) jobDesc kr =
     (case js_match jobDesc p of
        None \<Rightarrow> responsibility_loop ps jobDesc kr
      | Some matches \<Rightarrow>
          (case group matches 1 of
             None \<Rightarrow> responsibility_loop ps jobDesc kr
           | Some g \<Rightarrow>
               if g \<noteq> [] then
                 (let responsibilities = map trim (split_re commaRegex g)
                  in responsibility_loop ps jobDesc
                       (kr @ filter (\<lambda>r. length r > 10) responsibilities))
               else responsibility_loop ps jobDesc kr))"

definition actionVerbs :: "string list" where
  "actionVerbs =
    [''analyze'', ''develop'', ''create'', ''design'', ''implement'', ''manage'',
     ''build'', ''collaborate'', ''communicate'', ''report'']"

definition has_action_verb :: "string \<Rightarrow> bool" where
  "has_action_verb sentence = (\<exists>verb \<in> set actionVerbs. js_includes (toLowerCase sentence) verb)"

text \<open>The loop over the sentences: a sentence with an action verb is pushed, and the loop
  stops once three entries are there.\<close>

fun sentence_loop :: "string list \<Rightarrow> string list \<Rightarrow> string list" where
  "sentence_loop [] kr = kr"
| "sentence_loop (sentence # rest) kr =
     (let kr' = (if has_action_verb sentence then kr @ [trim sentence] else kr)
      in if length kr' \<ge> 3 then kr' else sentence_loop rest kr')"

definition find_responsibilities :: "string \<Rightarrow> string list" where
  "find_responsibilities jobDesc =
     (let kr = responsibility_loop responsibilityPatterns jobDesc [];
          kr' = (if length kr = 0 then sentence_loop (split_re sentenceRegex jobDesc) kr else kr)
      in take 3 kr')"

definition companyPatterns :: "regexp list" where
  "companyPatterns =
     [trigger ''about us:'', trigger ''about the company:'', trigger ''our company:'',
      trigger ''we are'', trigger ''company overview:'']"

text \<open>The loop over the company patterns stops at the first pattern that matches with a
  non-empty group.\<close>

fun company_loop :: "regexp list \<Rightarrow> string \<Rightarrow> string" where
  "company_loop [] jobDesc = []"
| "company_loop (p # ps) jobDesc =
     (case js_match jobDesc p of
        None \<Rightarrow> company_loop ps jobDesc
      | Some matches \<Rightarrow>
          (case group matches 1 of
             None \<Rightarrow> company_loop ps jobDesc
           | Some g \<Rightarrow> if g \<noteq> [] then trim g else company_loop ps jobDesc))"

text \<open>\<^verbatim>\<open>jobDescription.split(' ')[0]\<close> is always defined, since \<^verbatim>\<open>split\<close> returns at
  least one piece.\<close>

definition find_companyInsights :: "string \<Rightarrow> string" where
  "find_companyInsights jobDesc =
     (let ci = company_loop companyPatterns jobDesc in
      if ci = [] then
        template [js_nth (split_char CHR '' '' jobDesc) 0,
                  Some '''s commitment to excellence and innovation in the industry'']
      else ci)"

definition analyzeJob :: "string \<Rightarrow> ResumeInfo \<Rightarrow> JobAnalysis" where
  "analyzeJob jobDesc resumeInfo =
     (let reqs = find_requirements jobDesc in
      \<lparr>requirements = reqs,
       matchedSkills = match_skills reqs (skills resumeInfo),
       keyResponsibilities = find_responsibilities jobDesc,
       companyInsights = find_companyInsights jobDesc\<rparr>)"

section \<open>generateCoverLetter\<close>

text \<open>
  The templates read the clock once, with \<^verbatim>\<open>new Date()\<close>. The reading is a parameter
  \<open>today\<close> of the model, a record of what a \<^verbatim>\<open>Date\<close> object answers in local time;
  \<^verbatim>\<open>getMonth\<close> counts from 0. The optional argument \<^verbatim>\<open>specialInstructions\<close> and
  the argument \<^verbatim>\<open>templateStyle\<close> with its default are \<open>string option\<close>, \<open>None\<close> when
  the caller leaves them out. The bullet sign U+2022 of the modern and creative templates is
  the one code unit of the source above 255. The templates only place it in the letter,
  at the head of a line, and nothing but the final \<^verbatim>\<open>trim\<close> reads the letter
  afterwards; it is written as the three characters \<open>bullet\<close>, none of them white space.
  The template literal that a function returns is divided at its
  \<^verbatim>\<open>${specialInstructionsText}\<close> slot into the pieces before it (opening) and the pieces
  after it (closing).
  No template can raise: the only method call on an indexed element,
  \<^verbatim>\<open>workHistory[0].toLowerCase()\<close>, sits under the check \<^verbatim>\<open>workHistory.length > 0\<close>,
  and all other method calls are on fields declared as strings.
\<close>

record Date =
  getFullYear :: nat
  getMonth :: nat
  getDate :: nat
  getHours :: nat
  getMinutes :: nat
  getSeconds :: nat
  getMilliseconds :: nat

definition bullet :: string where
  "bullet = [CHR 0xE2, CHR 0x80, CHR 0xA2]"

definition formattedDate :: "Date \<Rightarrow> string option list" where
  "formattedDate today =
     [Some (show_nat (getMonth today + 1)),
      Some ''/'',
      Some (show_nat (getDate today)),
      Some ''/'',
      Some (show_nat (getFullYear today))]"

text \<open>\<^verbatim>\<open>x && x.trim() !== ""\<close> for a string \<open>x\<close>\<close>

definition nonblank :: "string \<Rightarrow> bool" where
  "nonblank x = (x \<noteq> [] \<and> trim x \<noteq> [])"

text \<open>\<^verbatim>\<open>specialInstructions && specialInstructions.toLowerCase() !== "none" &&
  specialInstructions.trim() !== ""\<close>, the same test in all four templates\<close>

definition has_instructions :: "string option \<Rightarrow> bool" where
  "has_instructions si =
     (case si of None \<Rightarrow> False
      | Some s \<Rightarrow> s \<noteq> [] \<and> toLowerCase s \<noteq> ''none'' \<and> trim s \<noteq> [])"

definition skillsHighlight :: "ResumeInfo \<Rightarrow> JobAnalysis \<Rightarrow> string" where
  "skillsHighlight ri ja =
     (if length (matchedSkills ja) > 0 then join '', '' (matchedSkills ja)
      else join '', '' (take 3 (skills ri)))"

text \<open>\<^verbatim>\<open>/\s+/g\<close>\<close>

definition spacesRegex :: regexp where
  "spacesRegex = \<lparr>pattern = Plus Space, ignoreCase = False\<rparr>"

subsection \<open>Professional\<close>

definition relevantExperience :: "ResumeInfo \<Rightarrow> string option list" where
  "relevantExperience ri =
     (if nonblank (bio ri) then [Some (bio ri)]
      else if length (workHistory ri) > 0 then
     [Some ''Throughout my career, I have '',
      map_option toLowerCase (js_nth (workHistory ri) 0)]
      else [Some ''Throughout my career, I have developed strong analytical skills and the ability to translate complex data into actionable insights''])"

definition professional_educationText :: "ResumeInfo \<Rightarrow> JobAnalysis \<Rightarrow> string option list" where
  "professional_educationText ri ja =
     (if nonblank (education ri) then
     [Some ''\<newline>\<newline>With my '',
      Some (education ri),
      Some '', I have developed a strong foundation in theoretical concepts and practical applications that are directly relevant to this role.'']
      else [Some []])"

definition professional_specialInstructionsText :: "string option \<Rightarrow> string option list" where
  "professional_specialInstructionsText si =
     (if has_instructions si then
     [Some ''\<newline>\<newline>'',
      si]
      else [Some []])"

definition responsibilitiesText :: "JobAnalysis \<Rightarrow> string option list" where
  "responsibilitiesText ja =
     (if length (keyResponsibilities ja) > 0 then
     [Some ''\<newline>\<newline>In this role, I understand that you are looking for someone who can '',
      Some (join '', and '' (keyResponsibilities ja)),
      Some ''. My background has prepared me well for these responsibilities, and I am eager to apply my skills to contribute to your team's success.'']
      else [Some []])"

definition professional_opening ::
  "Date \<Rightarrow> ResumeInfo \<Rightarrow> jobInfo \<Rightarrow> JobAnalysis \<Rightarrow> string option list" where
  "professional_opening today ri ji ja =
     [Some ''\<newline>'',
      Some (name ri),
      Some ''\<newline>'',
      Some (address ri),
      Some ''\<newline>'',
      Some (email ri),
      Some ''\<newline>'',
      Some (phone ri),
      Some ''\<newline>''] @
     formattedDate today @
     [Some ''\<newline>\<newline>Hiring Manager\<newline>'',
      Some (companyName ji),
      Some ''\<newline>[Company Address]\<newline>\<newline>Dear Hiring Manager,\<newline>\<newline>I am excited to apply for the '',
      Some (jobTitle ji),
      Some '' position at '',
      Some (companyName ji),
      Some ''. With my background in '',
      Some (skillsHighlight ri ja),
      Some '' and '',
      Some (experience ri),
      Some '', I am confident in my ability to make valuable contributions to your team.''] @
     professional_educationText ri ja @
     [Some ''\<newline>\<newline>''] @
     relevantExperience ri @
     [Some ''.''] @
     responsibilitiesText ja @
     [Some ''\<newline>\<newline>I am particularly impressed by '',
      Some (companyInsights ja),
      Some ''. My experience with '',
      js_nth (skills ri) 0,
      Some '' positions me uniquely to contribute to your projects, and I am eager to bring my expertise to your esteemed organization.'']"

definition professional_closing ::
  "ResumeInfo \<Rightarrow> jobInfo \<Rightarrow> JobAnalysis \<Rightarrow> string option list" where
  "professional_closing ri ji ja =
     [Some ''\<newline>\<newline>I would welcome the opportunity to discuss how my qualifications align with your needs for the '',
      Some (jobTitle ji),
      Some '' position. I am available at your convenience and can be reached at '',
      Some (phone ri),
      Some '' or '',
      Some (email ri),
      Some ''.\<newline>\<newline>Thank you for considering my application. I look forward to the possibility of contributing to '',
      Some (companyName ji),
      Some '''s continued success.\<newline>\<newline>Sincerely,\<newline>\<newline>'',
      Some (name ri),
      Some ''\<newline>  '']"

definition professional_pieces ::
  "Date \<Rightarrow> ResumeInfo \<Rightarrow> jobInfo \<Rightarrow> JobAnalysis \<Rightarrow> string option \<Rightarrow> string option list" where
  "professional_pieces today ri ji ja si =
     professional_opening today ri ji ja @ professional_specialInstructionsText si @ professional_closing ri ji ja"

definition generateProfessionalTemplate ::
  "Date \<Rightarrow> ResumeInfo \<Rightarrow> jobInfo \<Rightarrow> JobAnalysis \<Rightarrow> string option \<Rightarrow> string" where
  "generateProfessionalTemplate today ri ji ja si =
     trim (template (professional_pieces today ri ji ja si))"

subsection \<open>Modern\<close>

definition personalStatement :: "ResumeInfo \<Rightarrow> string" where
  "personalStatement ri =
     (if nonblank (bio ri) then bio ri
      else (case workHistory ri of
              w # ws \<Rightarrow> w
            | [] \<Rightarrow> ''I am a data professional passionate about turning complex information into actionable insights''))"

definition modern_educationText :: "ResumeInfo \<Rightarrow> JobAnalysis \<Rightarrow> string option list" where
  "modern_educationText ri ja =
     (if nonblank (education ri) then
     [Some bullet,
      Some '' My '',
      Some (education ri),
      Some '' has equipped me with the knowledge and skills necessary to excel in this role.'']
      else [Some []])"

definition modern_specialInstructionsText :: "string option \<Rightarrow> string option list" where
  "modern_specialInstructionsText si =
     (if has_instructions si then
     [Some ''\<newline>'',
      si]
      else [Some []])"

definition skillBullets :: "ResumeInfo \<Rightarrow> string" where
  "skillBullets ri =
     join ''\<newline>'' (map (\<lambda>skill. template
     [Some bullet,
      Some '' '',
      Some skill]) (take 3 (skills ri)))"

definition modern_opening ::
  "Date \<Rightarrow> ResumeInfo \<Rightarrow> jobInfo \<Rightarrow> JobAnalysis \<Rightarrow> string option list" where
  "modern_opening today ri ji ja =
     [Some ''\<newline>'',
      Some (name ri),
      Some ''\<newline>'',
      Some (email ri),
      Some '' | '',
      Some (phone ri),
      Some '' | LinkedIn: linkedin.com/in/'',
      Some (replace_all spacesRegex ''-'' (toLowerCase (name ri))),
      Some ''\<newline>\<newline>''] @
     formattedDate today @
     [Some ''\<newline>\<newline>Dear '',
      Some (companyName ji),
      Some '' Hiring Team,\<newline>\<newline>RE: Application for '',
      Some (jobTitle ji),
      Some '' Position\<newline>\<newline>I'm excited to apply for the '',
      Some (jobTitle ji),
      Some '' role at '',
      Some (companyName ji),
      Some ''. Having researched your company's innovative work in the industry, I'm eager to bring my expertise in '',
      Some (skillsHighlight ri ja),
      Some '' to your team.\<newline>\<newline>KEY QUALIFICATIONS:\<newline>'',
      Some bullet,
      Some '' '',
      Some (personalStatement ri),
      Some ''\<newline>''] @
     modern_educationText ri ja @
     [Some ''\<newline>'',
      Some bullet,
      Some '' '',
      Some (experience ri),
      Some '' with a focus on '',
      js_nth (skills ri) 0,
      Some '' and '',
      js_or (js_nth (skills ri) 1) (Some ''data analysis''),
      Some ''\<newline>\<newline>RELEVANT SKILLS:\<newline>'',
      Some (skillBullets ri)]"

definition modern_closing ::
  "ResumeInfo \<Rightarrow> jobInfo \<Rightarrow> JobAnalysis \<Rightarrow> string option list" where
  "modern_closing ri ji ja =
     [Some ''\<newline>\<newline>What draws me to '',
      Some (companyName ji),
      Some '' is '',
      Some (companyInsights ja),
      Some ''. I believe my experience aligns perfectly with your needs for this role, and I'm particularly interested in contributing to '',
      js_or (js_nth (keyResponsibilities ja) 0) (Some ''your data-driven initiatives''),
      Some ''.\<newline>\<newline>I welcome the opportunity to discuss how my background matches your requirements. Please feel free to contact me at '',
      Some (email ri),
      Some '' or '',
      Some (phone ri),
      Some '' to arrange a conversation.\<newline>\<newline>Thank you for your consideration.\<newline>\<newline>Best regards,\<newline>\<newline>'',
      Some (name ri),
      Some ''\<newline>  '']"

definition modern_pieces ::
  "Date \<Rightarrow> ResumeInfo \<Rightarrow> jobInfo \<Rightarrow> JobAnalysis \<Rightarrow> string option \<Rightarrow> string option list" where
  "modern_pieces today ri ji ja si =
     modern_opening today ri ji ja @ modern_specialInstructionsText si @ modern_closing ri ji ja"

definition generateModernTemplate ::
  "Date \<Rightarrow> ResumeInfo \<Rightarrow> jobInfo \<Rightarrow> JobAnalysis \<Rightarrow> string option \<Rightarrow> string" where
  "generateModernTemplate today ri ji ja si =
     trim (template (modern_pieces today ri ji ja si))"

subsection \<open>Creative\<close>

definition uniqueSkills0 :: "ResumeInfo \<Rightarrow> string option list" where
  "uniqueSkills0 ri =
     [Some ''Ability to transform complex data into actionable insights using '',
      js_nth (skills ri) 0]"

definition uniqueSkills1 :: "ResumeInfo \<Rightarrow> JobAnalysis \<Rightarrow> string option list" where
  "uniqueSkills1 ri ja =
     [Some ''Experience with '',
      js_or (js_or (js_nth (matchedSkills ja) 0) (js_nth (skills ri) 1)) (Some ''advanced analytics''),
      Some '' to drive business decisions'']"

definition uniqueSkills2 :: "ResumeInfo \<Rightarrow> JobAnalysis \<Rightarrow> string option list" where
  "uniqueSkills2 ri ja =
     [Some ''Strong problem-solving skills with a focus on '',
      js_or (js_or (js_nth (matchedSkills ja) 1) (js_nth (skills ri) 2)) (Some ''data-driven solutions'')]"

definition creative_specialInstructionsText :: "string option \<Rightarrow> string option list" where
  "creative_specialInstructionsText si =
     (if has_instructions si then
     [Some ''\<newline>SPECIAL NOTE: '',
      si,
      Some ''\<newline>'']
      else [Some []])"

definition creative_educationText :: "ResumeInfo \<Rightarrow> JobAnalysis \<Rightarrow> string option list" where
  "creative_educationText ri ja =
     (if nonblank (education ri) then
     [Some ''\<newline>My '',
      Some (education ri),
      Some '' has given me a solid foundation in '',
      js_or (js_nth (matchedSkills ja) 0) (js_nth (skills ri) 0),
      Some ''.'']
      else [Some []])"

definition creative_workHistoryText :: "ResumeInfo \<Rightarrow> string option list" where
  "creative_workHistoryText ri =
     (if length (workHistory ri) > 0 then
     [Some ''\<newline>My experience includes: '',
      js_nth (workHistory ri) 0]
      else [Some []])"

definition creative_opening ::
  "Date \<Rightarrow> ResumeInfo \<Rightarrow> jobInfo \<Rightarrow> JobAnalysis \<Rightarrow> string option list" where
  "creative_opening today ri ji ja =
     [Some ''\<newline>'',
      Some (toUpperCase (name ri)),
      Some ''\<newline>'',
      Some (email ri),
      Some '' '',
      Some bullet,
      Some '' '',
      Some (phone ri),
      Some '' '',
      Some bullet,
      Some '' Portfolio: '',
      Some (replace_all spacesRegex [] (toLowerCase (name ri))),
      Some ''.com\<newline>\<newline>''] @
     formattedDate today @
     [Some ''\<newline>\<newline>Hello '',
      Some (companyName ji),
      Some '' Team!\<newline>\<newline>When I discovered the '',
      Some (jobTitle ji),
      Some '' opportunity at '',
      Some (companyName ji),
      Some '', I knew it was the perfect chance to combine my passion for '',
      js_or (js_nth (matchedSkills ja) 0) (js_nth (skills ri) 0),
      Some '' with my skills in '',
      Some (join '' and '' (take 2 (skills ri))),
      Some ''.''] @
     creative_educationText ri ja @
     creative_workHistoryText ri @
     [Some ''\<newline>\<newline>WHY I'M EXCITED ABOUT '',
      Some (toUpperCase (companyName ji)),
      Some '':\<newline>I've been following your work and am impressed by your approach to innovation and excellence. The prospect of contributing to such forward-thinking projects is thrilling.\<newline>\<newline>WHAT I BRING TO THE TABLE:\<newline>'',
      Some bullet,
      Some '' ''] @
     uniqueSkills0 ri @
     [Some ''\<newline>'',
      Some bullet,
      Some '' ''] @
     uniqueSkills1 ri ja @
     [Some ''\<newline>'',
      Some bullet,
      Some '' ''] @
     uniqueSkills2 ri ja @
     [Some ''\<newline>'',
      Some bullet,
      Some '' '',
      Some (experience ri),
      Some '' ready to make an immediate impact'']"

definition creative_closing ::
  "ResumeInfo \<Rightarrow> jobInfo \<Rightarrow> JobAnalysis \<Rightarrow> string option list" where
  "creative_closing ri ji ja =
     [Some ''\<newline>\<newline>I'd love to show you how my creative approach and technical abilities can help '',
      Some (companyName ji),
      Some '' continue to excel in '',
      js_or (js_nth (keyResponsibilities ja) 0) (Some ''data analysis and insights''),
      Some ''. Let's schedule a time to talk about how we might work together!\<newline>\<newline>Creatively yours,\<newline>\<newline>'',
      Some (name ri),
      Some ''\<newline>  '']"

definition creative_pieces ::
  "Date \<Rightarrow> ResumeInfo \<Rightarrow> jobInfo \<Rightarrow> JobAnalysis \<Rightarrow> string option \<Rightarrow> string option list" where
  "creative_pieces today ri ji ja si =
     creative_opening today ri ji ja @ creative_specialInstructionsText si @ creative_closing ri ji ja"

definition generateCreativeTemplate ::
  "Date \<Rightarrow> ResumeInfo \<Rightarrow> jobInfo \<Rightarrow> JobAnalysis \<Rightarrow> string option \<Rightarrow> string" where
  "generateCreativeTemplate today ri ji ja si =
     trim (template (creative_pieces today ri ji ja si))"

subsection \<open>Traditional\<close>

definition relevantSkills :: "ResumeInfo \<Rightarrow> JobAnalysis \<Rightarrow> string list" where
  "relevantSkills ri ja =
     (if length (matchedSkills ja) > 0 then matchedSkills ja else take 3 (skills ri))"

definition traditional_specialInstructionsText :: "string option \<Rightarrow> string option list" where
  "traditional_specialInstructionsText si =
     (if has_instructions si then
     [Some ''\<newline>I would like to note that '',
      si,
      Some ''\<newline>'']
      else [Some []])"

definition traditional_educationText :: "ResumeInfo \<Rightarrow> JobAnalysis \<Rightarrow> string option list" where
  "traditional_educationText ri ja =
     (if nonblank (education ri) then
     [Some ''\<newline>\<newline>My educational background includes '',
      Some (education ri),
      Some '', which has provided me with a strong foundation in '',
      js_nth (relevantSkills ri ja) 0,
      Some ''.'']
      else [Some []])"

definition traditional_workHistoryText :: "ResumeInfo \<Rightarrow> string option list" where
  "traditional_workHistoryText ri =
     (if length (workHistory ri) > 0 then
     [Some ''\<newline>\<newline>My professional experience includes '',
      js_nth (workHistory ri) 0,
      Some ''.'']
      else [Some []])"

definition traditional_opening ::
  "Date \<Rightarrow> ResumeInfo \<Rightarrow> jobInfo \<Rightarrow> JobAnalysis \<Rightarrow> string option list" where
  "traditional_opening today ri ji ja =
     [Some ''\<newline>'',
      Some (name ri),
      Some ''\<newline>'',
      Some (address ri),
      Some ''\<newline>'',
      Some (email ri),
      Some ''\<newline>'',
      Some (phone ri),
      Some ''\<newline>\<newline>''] @
     formattedDate today @
     [Some ''\<newline>\<newline>Hiring Manager\<newline>'',
      Some (companyName ji),
      Some ''\<newline>[Company Address]\<newline>\<newline>Dear Hiring Manager:\<newline>\<newline>Please accept my application for the position of '',
      Some (jobTitle ji),
      Some '' at '',
      Some (companyName ji),
      Some '', as advertised. With '',
      Some (experience ri),
      Some '', I believe my qualifications make me an excellent candidate for this role.\<newline>\<newline>Throughout my professional career, I have developed strong skills in '',
      Some (join '', '' (relevantSkills ri ja)),
      Some '', and '',
      js_nth (skills ri) 0,
      Some ''. In my current position, I have consistently demonstrated the ability to deliver results and contribute to team success.''] @
     traditional_workHistoryText ri @
     traditional_educationText ri ja"

definition traditional_closing ::
  "ResumeInfo \<Rightarrow> jobInfo \<Rightarrow> JobAnalysis \<Rightarrow> string option list" where
  "traditional_closing ri ji ja =
     [Some ''\<newline>\<newline>I am particularly interested in joining '',
      Some (companyName ji),
      Some '' because of your reputation for excellence in the industry. I am confident that my experience in '',
      Some (join '' and '' (take 2 (skills ri))),
      Some '' would allow me to make a valuable contribution to your team.\<newline>\<newline>Thank you for your time and consideration. I look forward to the opportunity to further discuss my qualifications in an interview. I can be reached at '',
      Some (phone ri),
      Some '' or '',
      Some (email ri),
      Some ''.\<newline>\<newline>Sincerely,\<newline>\<newline>'',
      Some (name ri),
      Some ''\<newline>  '']"

definition traditional_pieces ::
  "Date \<Rightarrow> ResumeInfo \<Rightarrow> jobInfo \<Rightarrow> JobAnalysis \<Rightarrow> string option \<Rightarrow> string option list" where
  "traditional_pieces today ri ji ja si =
     traditional_opening today ri ji ja @ traditional_specialInstructionsText si @ traditional_closing ri ji ja"

definition generateTraditionalTemplate ::
  "Date \<Rightarrow> ResumeInfo \<Rightarrow> jobInfo \<Rightarrow> JobAnalysis \<Rightarrow> string option \<Rightarrow> string" where
  "generateTraditionalTemplate today ri ji ja si =
     trim (template (traditional_pieces today ri ji ja si))"

subsection \<open>The style switch\<close>

text \<open>The parameter \<^verbatim>\<open>templateStyle = "professional"\<close> takes its default when the caller
  passes nothing; the \<^verbatim>\<open>switch\<close> compares with \<^verbatim>\<open>===\<close> and sends every other
  value to the \<^verbatim>\<open>default\<close> branch, which shares the professional case.\<close>

definition generateCoverLetter ::
  "Date \<Rightarrow> ResumeInfo \<Rightarrow> jobInfo \<Rightarrow> JobAnalysis \<Rightarrow> string option \<Rightarrow> string option \<Rightarrow> string" where
  "generateCoverLetter today ri ji ja si templateStyle =
     (let style = (case templateStyle of None \<Rightarrow> ''professional'' | Some s \<Rightarrow> s) in
      if style = ''modern'' then generateModernTemplate today ri ji ja si
      else if style = ''creative'' then generateCreativeTemplate today ri ji ja si
      else if style = ''traditional'' then generateTraditionalTemplate today ri ji ja si
      else if style = ''professional'' then generateProfessionalTemplate today ri ji ja si
      else generateProfessionalTemplate today ri ji ja si)"

section \<open>Reference definitions\<close>

text \<open>
  Two readings of the responsibility extraction, to compare with \<open>find_responsibilities\<close>.
  Both use the group that a pattern captures, when the pattern matches and the group is
  not empty, and the fragments of a group: its pieces between commas and semicolons,
  trimmed, longer than 10 characters.
\<close>

definition captured :: "regexp \<Rightarrow> string \<Rightarrow> string option" where
  "captured p jobDesc =
     (case js_match jobDesc p of
        None \<Rightarrow> None
      | Some m \<Rightarrow> (case group m 1 of None \<Rightarrow> None | Some g \<Rightarrow> if g \<noteq> [] then Some g else None))"

definition fragments :: "string \<Rightarrow> string list" where
  "fragments g = filter (\<lambda>r. length r > 10) (map trim (split_re commaRegex g))"

definition verb_sentences :: "string \<Rightarrow> string list" where
  "verb_sentences jobDesc = map trim (filter has_action_verb (split_re sentenceRegex jobDesc))"

text \<open>The specification's reading: the patterns are tried in order, the first one that
  matches wins and only its group is used; the sentences are the fallback when no
  pattern matches.\<close>

fun first_captured :: "regexp list \<Rightarrow> string \<Rightarrow> string option" where
  "first_captured [] jobDesc = None"
| "first_captured (p # ps) jobDesc =
     (case captured p jobDesc of Some g \<Rightarrow> Some g | None \<Rightarrow> first_captured ps jobDesc)"

definition responsibilities_first_match :: "string \<Rightarrow> string list" where
  "responsibilities_first_match jobDesc =
     take 3 (case first_captured responsibilityPatterns jobDesc of
               Some g \<Rightarrow> fragments g
             | None \<Rightarrow> verb_sentences jobDesc)"

text \<open>The other reading: the fragments of all patterns that match, in the order of the
  patterns; the sentences are the fallback when there is no fragment at all.\<close>

definition all_fragments :: "regexp list \<Rightarrow> string \<Rightarrow> string list" where
  "all_fragments ps jobDesc =
     concat (map (\<lambda>p. case captured p jobDesc of Some g \<Rightarrow> fragments g | None \<Rightarrow> []) ps)"

definition responsibilities_all_matches :: "string \<Rightarrow> string list" where
  "responsibilities_all_matches jobDesc =
     take 3 (if all_fragments responsibilityPatterns jobDesc \<noteq> []
             then all_fragments responsibilityPatterns jobDesc
             else verb_sentences jobDesc)"

text \<open>The text that each style puts before and after the special instructions.\<close>

definition instruction_lead :: "string option \<Rightarrow> string" where
  "instruction_lead templateStyle =
     (if templateStyle = Some ''modern'' then ''\<newline>''
      else if templateStyle = Some ''creative'' then ''\<newline>SPECIAL NOTE: ''
      else if templateStyle = Some ''traditional'' then ''\<newline>I would like to note that ''
      else ''\<newline>\<newline>'')"

definition instruction_trail :: "string option \<Rightarrow> string" where
  "instruction_trail templateStyle =
     (if templateStyle = Some ''creative'' \<or> templateStyle = Some ''traditional''
      then ''\<newline>'' else [])"

text \<open>The letter around the place of the special instructions. \<^verbatim>\<open>trim\<close> removes white
  space at the head of the pieces before the place and at the end of the pieces after it.
  The text right before the place is the end of a paragraph for professional and
  traditional, the last bullet of a list for modern and creative; the text right after
  it is a blank line and the start of the next paragraph.\<close>

definition trim_start :: "string \<Rightarrow> string" where
  "trim_start s = dropWhile is_ws s"

definition trim_end :: "string \<Rightarrow> string" where
  "trim_end s = rev (dropWhile is_ws (rev s))"

definition letter_opening ::
  "Date \<Rightarrow> ResumeInfo \<Rightarrow> jobInfo \<Rightarrow> JobAnalysis \<Rightarrow> string option \<Rightarrow> string option list" where
  "letter_opening today ri ji ja templateStyle =
     (if templateStyle = Some ''modern'' then modern_opening today ri ji ja
      else if templateStyle = Some ''creative'' then creative_opening today ri ji ja
      else if templateStyle = Some ''traditional'' then traditional_opening today ri ji ja
      else professional_opening today ri ji ja)"

definition letter_closing ::
  "ResumeInfo \<Rightarrow> jobInfo \<Rightarrow> JobAnalysis \<Rightarrow> string option \<Rightarrow> string option list" where
  "letter_closing ri ji ja templateStyle =
     (if templateStyle = Some ''modern'' then modern_closing ri ji ja
      else if templateStyle = Some ''creative'' then creative_closing ri ji ja
      else if templateStyle = Some ''traditional'' then traditional_closing ri ji ja
      else professional_closing ri ji ja)"

definition before_instructions :: "ResumeInfo \<Rightarrow> JobAnalysis \<Rightarrow> string option \<Rightarrow> string" where
  "before_instructions ri ja templateStyle =
     (if templateStyle = Some ''modern'' then
        ''\<newline>\<newline>RELEVANT SKILLS:\<newline>'' @ skillBullets ri
      else if templateStyle = Some ''creative'' then
        ''\<newline>'' @ bullet @ '' '' @ experience ri @ '' ready to make an immediate impact''
      else if templateStyle = Some ''traditional'' then
        '' In my current position, I have consistently demonstrated the ability to deliver results and contribute to team success.'' @
        template (traditional_workHistoryText ri) @ template (traditional_educationText ri ja)
      else '' and I am eager to bring my expertise to your esteemed organization.'')"

definition after_instructions :: "string option \<Rightarrow> string" where
  "after_instructions templateStyle =
     (if templateStyle = Some ''modern'' then ''\<newline>\<newline>What draws me to ''
      else if templateStyle = Some ''creative'' then ''\<newline>\<newline>I'd love to show you how ''
      else if templateStyle = Some ''traditional'' then
        ''\<newline>\<newline>I am particularly interested in joining ''
      else ''\<newline>\<newline>I would welcome the opportunity to discuss '')"

text \<open>A profile that overrides nothing: the argument is absent, or each of the five
  properties is missing or the empty string.\<close>

definition no_override :: "userProfile option \<Rightarrow> bool" where
  "no_override up =
     (profile_field up profile_name = [] \<and> profile_field up profile_email = [] \<and>
      profile_field up profile_phone = [] \<and> profile_field up profile_address = [] \<and>
      profile_field up profile_bio = [])"

text \<open>Two readings of the clock on the same calendar day.\<close>

definition same_day :: "Date \<Rightarrow> Date \<Rightarrow> bool" where
  "same_day t1 t2 =
     (getFullYear t1 = getFullYear t2 \<and> getMonth t1 = getMonth t2 \<and> getDate t1 = getDate t2)"

text \<open>Inputs for the examples below.\<close>

definition noon :: Date where
  "noon = \<lparr>getFullYear = 2026, getMonth = 10, getDate = 2, getHours = 12, getMinutes = 0,
           getSeconds = 0, getMilliseconds = 0\<rparr>"

definition evening :: Date where
  "evening = \<lparr>getFullYear = 2026, getMonth = 10, getDate = 2, getHours = 21, getMinutes = 30,
              getSeconds = 15, getMilliseconds = 250\<rparr>"

definition empty_resume :: ResumeInfo where
  "empty_resume =
     \<lparr>name = [], email = [], phone = [], address = [], skills = [], experience = [],
      education = [], workHistory = [], bio = []\<rparr>"

definition empty_analysis :: JobAnalysis where
  "empty_analysis =
     \<lparr>requirements = [], matchedSkills = [], keyResponsibilities = [], companyInsights = []\<rparr>"

definition acme_job :: jobInfo where
  "acme_job = \<lparr>companyName = ''Acme Labs'', jobTitle = ''Data Analyst'', jobDescription = []\<rparr>"

definition sample_resume :: ResumeInfo where
  "sample_resume = empty_resume\<lparr>skills := [''Python'', ''Excel'', ''SQL'', ''Git'']\<rparr>"

definition two_triggers :: string where
  "two_triggers =
     ''Responsibilities include writing documentation. You will maintain servers daily.''"

definition absent_fields :: userProfile where
  "absent_fields =
     \<lparr>profile_name = None, profile_email = Some [], profile_phone = None,
      profile_address = None, profile_bio = Some []\<rparr>"

section \<open>Auxiliary facts\<close>

subsection \<open>Substrings, loops and trimming\<close>

lemma starts_with_iff: "starts_with s p \<longleftrightarrow> (\<exists>q. s = p @ q)"
  by (induction s p rule: starts_with.induct) auto

lemma js_includes_iff: "js_includes s sub \<longleftrightarrow> (\<exists>p q. s = p @ sub @ q)"
proof (induction s)
  case Nil
  then show ?case by auto
next
  case (Cons c cs)
  show ?case
  proof
    assume "js_includes (c # cs) sub"
    then consider "starts_with (c # cs) sub" | "js_includes cs sub" by auto
    then show "\<exists>p q. c # cs = p @ sub @ q"
    proof cases
      case 1
      then obtain q where "c # cs = sub @ q" using starts_with_iff by blast
      then have "c # cs = [] @ sub @ q" by simp
      then show ?thesis by blast
    next
      case 2
      then obtain p q where "cs = p @ sub @ q" using Cons.IH by blast
      then have "c # cs = (c # p) @ sub @ q" by simp
      then show ?thesis by blast
    qed
  next
    assume "\<exists>p q. c # cs = p @ sub @ q"
    then obtain p q where pq: "c # cs = p @ sub @ q" by blast
    show "js_includes (c # cs) sub"
    proof (cases p)
      case Nil
      with pq have "starts_with (c # cs) sub" using starts_with_iff by auto
      then show ?thesis by simp
    next
      case (Cons a p')
      with pq have "cs = p' @ sub @ q" by simp
      then have "js_includes cs sub" using Cons.IH by blast
      then show ?thesis by simp
    qed
  qed
qed

lemma responsibility_loop_eq:
  "responsibility_loop ps jd kr = kr @ all_fragments ps jd"
  by (induction ps arbitrary: kr)
     (auto simp: all_fragments_def captured_def fragments_def Let_def split: option.splits)

lemma sentence_loop_eq:
  "length kr < 3 \<Longrightarrow> sentence_loop ss kr = take 3 (kr @ map trim (filter has_action_verb ss))"
proof (induction ss arbitrary: kr)
  case Nil
  then show ?case by simp
next
  case (Cons s ss)
  show ?case
  proof (cases "has_action_verb s")
    case False
    with Cons show ?thesis by (simp add: Let_def)
  next
    case True
    show ?thesis
    proof (cases "length kr = 2")
      case True
      with \<open>has_action_verb s\<close> show ?thesis by (simp add: Let_def)
    next
      case False
      with Cons.prems have "length (kr @ [trim s]) < 3" by simp
      from Cons.IH [OF this] \<open>has_action_verb s\<close> False Cons.prems
      show ?thesis by (simp add: Let_def)
    qed
  qed
qed

lemma find_responsibilities_eq:
  "find_responsibilities jd = responsibilities_all_matches jd"
  by (simp add: find_responsibilities_def responsibilities_all_matches_def Let_def
        responsibility_loop_eq sentence_loop_eq verb_sentences_def)

lemma trim_append3:
  assumes "\<exists>c\<in>set a. \<not> is_ws c" and "\<exists>c\<in>set b. \<not> is_ws c"
  shows "trim (a @ m @ b) = dropWhile is_ws a @ m @ rev (dropWhile is_ws (rev b))"
proof -
  from assms(1) obtain c where c: "c \<in> set a" "\<not> is_ws c" by blast
  from assms(2) obtain d where d: "d \<in> set (rev b)" "\<not> is_ws d" by auto
  have 1: "dropWhile is_ws (a @ m @ b) = dropWhile is_ws a @ m @ b"
    using c by (simp add: dropWhile_append1)
  have 2: "dropWhile is_ws (rev b @ rev m @ rev (dropWhile is_ws a))
           = dropWhile is_ws (rev b) @ rev m @ rev (dropWhile is_ws a)"
    using d by (simp add: dropWhile_append1)
  show ?thesis by (simp add: trim_def 1 2)
qed

lemma trim_empty_iff: "trim s = [] \<longleftrightarrow> (\<forall>c\<in>set s. is_ws c)"
proof -
  have "(\<forall>x\<in>set (dropWhile is_ws s). is_ws x) \<longleftrightarrow> (\<forall>x\<in>set s. is_ws x)"
  proof
    assume a: "\<forall>x\<in>set (dropWhile is_ws s). is_ws x"
    have "set s = set (takeWhile is_ws s) \<union> set (dropWhile is_ws s)"
      by (metis set_append takeWhile_dropWhile_id)
    with a show "\<forall>x\<in>set s. is_ws x" by (auto dest: set_takeWhileD)
  next
    assume "\<forall>x\<in>set s. is_ws x"
    then show "\<forall>x\<in>set (dropWhile is_ws s). is_ws x" by (auto dest: set_dropWhileD)
  qed
  then show ?thesis by (simp add: trim_def dropWhile_eq_Nil_conv)
qed

subsection \<open>The shape of a letter\<close>

lemma template_append: "template (a @ b) = template a @ template b"
  by (simp add: template_def)

lemma letter_shape:
  assumes "\<exists>c\<in>set (template A). \<not> is_ws c" and "\<exists>c\<in>set (template B). \<not> is_ws c"
  shows "trim (template (A @ S @ B)) =
         dropWhile is_ws (template A) @ template S @ rev (dropWhile is_ws (rev (template B)))"
  using trim_append3 [OF assms] by (simp add: template_append)

lemma has_instructions_iff:
  "has_instructions si \<longleftrightarrow>
   (case si of None \<Rightarrow> False
    | Some s \<Rightarrow> \<not> (s = [] \<or> toLowerCase s = ''none'' \<or> (\<forall>c\<in>set s. is_ws c)))"
  by (auto simp: has_instructions_def trim_empty_iff split: option.splits)

lemma professional_opening_text: "\<exists>c\<in>set (template (professional_opening today ri ji ja)). \<not> is_ws c"
proof -
  have "CHR ''H'' \<in> set (template (professional_opening today ri ji ja))"
    by (simp add: professional_opening_def template_def ToString_def)
  moreover have "\<not> is_ws (CHR ''H'')" by (simp add: is_ws_def)
  ultimately show ?thesis by blast
qed

lemma professional_closing_text: "\<exists>c\<in>set (template (professional_closing ri ji ja)). \<not> is_ws c"
proof -
  have "CHR ''S'' \<in> set (template (professional_closing ri ji ja))"
    by (simp add: professional_closing_def template_def ToString_def)
  moreover have "\<not> is_ws (CHR ''S'')" by (simp add: is_ws_def)
  ultimately show ?thesis by blast
qed

lemma professional_instructions:
  "template (professional_specialInstructionsText si) =
     (if has_instructions si then ''\<newline>\<newline>'' @ the si else [])"
  by (auto simp: professional_specialInstructionsText_def template_def ToString_def
        has_instructions_def split: option.splits)

lemma professional_shape:
  "generateProfessionalTemplate today ri ji ja si =
     dropWhile is_ws (template (professional_opening today ri ji ja)) @
     (if has_instructions si then ''\<newline>\<newline>'' @ the si else []) @
     rev (dropWhile is_ws (rev (template (professional_closing ri ji ja))))"
  unfolding generateProfessionalTemplate_def professional_pieces_def
  by (simp only: letter_shape [OF professional_opening_text professional_closing_text]
        professional_instructions)


lemma modern_opening_text: "\<exists>c\<in>set (template (modern_opening today ri ji ja)). \<not> is_ws c"
proof -
  have "CHR ''D'' \<in> set (template (modern_opening today ri ji ja))"
    by (simp add: modern_opening_def template_def ToString_def)
  moreover have "\<not> is_ws (CHR ''D'')" by (simp add: is_ws_def)
  ultimately show ?thesis by blast
qed

lemma modern_closing_text: "\<exists>c\<in>set (template (modern_closing ri ji ja)). \<not> is_ws c"
proof -
  have "CHR ''W'' \<in> set (template (modern_closing ri ji ja))"
    by (simp add: modern_closing_def template_def ToString_def)
  moreover have "\<not> is_ws (CHR ''W'')" by (simp add: is_ws_def)
  ultimately show ?thesis by blast
qed

lemma modern_instructions:
  "template (modern_specialInstructionsText si) =
     (if has_instructions si then ''\<newline>'' @ the si else [])"
  by (auto simp: modern_specialInstructionsText_def template_def ToString_def
        has_instructions_def split: option.splits)

lemma modern_shape:
  "generateModernTemplate today ri ji ja si =
     dropWhile is_ws (template (modern_opening today ri ji ja)) @
     (if has_instructions si then ''\<newline>'' @ the si else []) @
     rev (dropWhile is_ws (rev (template (modern_closing ri ji ja))))"
  unfolding generateModernTemplate_def modern_pieces_def
  by (simp only: letter_shape [OF modern_opening_text modern_closing_text]
        modern_instructions)

lemma creative_opening_text: "\<exists>c\<in>set (template (creative_opening today ri ji ja)). \<not> is_ws c"
proof -
  have "CHR ''H'' \<in> set (template (creative_opening today ri ji ja))"
    by (simp add: creative_opening_def template_def ToString_def)
  moreover have "\<not> is_ws (CHR ''H'')" by (simp add: is_ws_def)
  ultimately show ?thesis by blast
qed

lemma creative_closing_text: "\<exists>c\<in>set (template (creative_closing ri ji ja)). \<not> is_ws c"
proof -
  have "CHR ''I'' \<in> set (template (creative_closing ri ji ja))"
    by (simp add: creative_closing_def template_def ToString_def)
  moreover have "\<not> is_ws (CHR ''I'')" by (simp add: is_ws_def)
  ultimately show ?thesis by blast
qed

lemma creative_instructions:
  "template (creative_specialInstructionsText si) =
     (if has_instructions si then ''\<newline>SPECIAL NOTE: '' @ the si @ ''\<newline>'' else [])"
  by (auto simp: creative_specialInstructionsText_def template_def ToString_def
        has_instructions_def split: option.splits)

lemma creative_shape:
  "generateCreativeTemplate today ri ji ja si =
     dropWhile is_ws (template (creative_opening today ri ji ja)) @
     (if has_instructions si then ''\<newline>SPECIAL NOTE: '' @ the si @ ''\<newline>'' else []) @
     rev (dropWhile is_ws (rev (template (creative_closing ri ji ja))))"
  unfolding generateCreativeTemplate_def creative_pieces_def
  by (simp only: letter_shape [OF creative_opening_text creative_closing_text]
        creative_instructions)

lemma traditional_opening_text: "\<exists>c\<in>set (template (traditional_opening today ri ji ja)). \<not> is_ws c"
proof -
  have "CHR ''H'' \<in> set (template (traditional_opening today ri ji ja))"
    by (simp add: traditional_opening_def template_def ToString_def)
  moreover have "\<not> is_ws (CHR ''H'')" by (simp add: is_ws_def)
  ultimately show ?thesis by blast
qed

lemma traditional_closing_text: "\<exists>c\<in>set (template (traditional_closing ri ji ja)). \<not> is_ws c"
proof -
  have "CHR ''I'' \<in> set (template (traditional_closing ri ji ja))"
    by (simp add: traditional_closing_def template_def ToString_def)
  moreover have "\<not> is_ws (CHR ''I'')" by (simp add: is_ws_def)
  ultimately show ?thesis by blast
qed

lemma traditional_instructions:
  "template (traditional_specialInstructionsText si) =
     (if has_instructions si then ''\<newline>I would like to note that '' @ the si @ ''\<newline>'' else [])"
  by (auto simp: traditional_specialInstructionsText_def template_def ToString_def
        has_instructions_def split: option.splits)

lemma traditional_shape:
  "generateTraditionalTemplate today ri ji ja si =
     dropWhile is_ws (template (traditional_opening today ri ji ja)) @
     (if has_instructions si then ''\<newline>I would like to note that '' @ the si @ ''\<newline>'' else []) @
     rev (dropWhile is_ws (rev (template (traditional_closing ri ji ja))))"
  unfolding generateTraditionalTemplate_def traditional_pieces_def
  by (simp only: letter_shape [OF traditional_opening_text traditional_closing_text]
        traditional_instructions)

subsection \<open>The text around the special instructions\<close>

lemma opening_end:
  assumes "ps = f @ a" and "c \<in> set (template f)" and "\<not> is_ws c"
    and "template a = x @ y"
  shows "suffix y (trim_start (template ps))"
proof -
  have "trim_start (template ps) = (dropWhile is_ws (template f) @ x) @ y"
    using assms by (simp add: trim_start_def template_append dropWhile_append1)
  then show ?thesis unfolding suffix_def by blast
qed

lemma closing_start:
  assumes "ps = a @ r" and "c \<in> set (template r)" and "\<not> is_ws c"
    and "template a = x @ y"
  shows "prefix x (trim_end (template ps))"
proof -
  from assms(2) have "c \<in> set (rev (template r))" by simp
  then have "dropWhile is_ws (rev (template r) @ rev (template a)) =
        dropWhile is_ws (rev (template r)) @ rev (template a)"
    using assms(3) by (simp add: dropWhile_append1)
  then have "trim_end (template ps) = x @ (y @ rev (dropWhile is_ws (rev (template r))))"
    using assms(1,4) by (simp add: trim_end_def template_append)
  then show ?thesis unfolding prefix_def by blast
qed

lemma rev_split: "ps = rev (drop k (rev ps)) @ rev (take k (rev ps))"
  by (metis append_take_drop_id rev_append rev_rev_ident)

lemma take_split: "ps = take k ps @ drop k ps"
  by simp

lemma professional_opening_end:
  "suffix (before_instructions ri ja (Some ''professional''))
     (trim_start (template (professional_opening today ri ji ja)))"
proof -
  let ?ps = "professional_opening today ri ji ja"
  have c: "CHR ''H'' \<in> set (template (rev (drop 1 (rev ?ps))))"
    by (simp add: professional_opening_def template_def ToString_def)
  have w: "\<not> is_ws (CHR ''H'')" by (simp add: is_ws_def)
  have a: "template (rev (take 1 (rev ?ps))) =
      '' positions me uniquely to contribute to your projects,'' @
      before_instructions ri ja (Some ''professional'')"
    by (simp add: professional_opening_def template_def ToString_def before_instructions_def)
  from opening_end [OF rev_split c w a] show ?thesis .
qed

lemma professional_closing_start:
  "prefix (after_instructions (Some ''professional''))
     (trim_end (template (professional_closing ri ji ja)))"
proof -
  let ?ps = "professional_closing ri ji ja"
  have c: "CHR ''S'' \<in> set (template (drop 1 ?ps))"
    by (simp add: professional_closing_def template_def ToString_def)
  have w: "\<not> is_ws (CHR ''S'')" by (simp add: is_ws_def)
  have a: "template (take 1 ?ps) =
      after_instructions (Some ''professional'') @
      ''how my qualifications align with your needs for the ''"
    by (simp add: professional_closing_def template_def ToString_def after_instructions_def)
  from closing_start [OF take_split c w a] show ?thesis .
qed

lemma modern_opening_end:
  "suffix (before_instructions ri ja (Some ''modern''))
     (trim_start (template (modern_opening today ri ji ja)))"
proof -
  let ?ps = "modern_opening today ri ji ja"
  have c: "CHR ''D'' \<in> set (template (rev (drop 2 (rev ?ps))))"
    by (simp add: modern_opening_def template_def ToString_def)
  have w: "\<not> is_ws (CHR ''D'')" by (simp add: is_ws_def)
  have a: "template (rev (take 2 (rev ?ps))) = [] @ before_instructions ri ja (Some ''modern'')"
    by (simp add: modern_opening_def template_def ToString_def before_instructions_def)
  from opening_end [OF rev_split c w a] show ?thesis .
qed

lemma modern_closing_start:
  "prefix (after_instructions (Some ''modern''))
     (trim_end (template (modern_closing ri ji ja)))"
proof -
  let ?ps = "modern_closing ri ji ja"
  have c: "CHR ''P'' \<in> set (template (drop 1 ?ps))"
    by (simp add: modern_closing_def template_def ToString_def)
  have w: "\<not> is_ws (CHR ''P'')" by (simp add: is_ws_def)
  have a: "template (take 1 ?ps) = after_instructions (Some ''modern'') @ []"
    by (simp add: modern_closing_def template_def ToString_def after_instructions_def)
  from closing_start [OF take_split c w a] show ?thesis .
qed

lemma creative_opening_end:
  "suffix (before_instructions ri ja (Some ''creative''))
     (trim_start (template (creative_opening today ri ji ja)))"
proof -
  let ?ps = "creative_opening today ri ji ja"
  have c: "CHR ''H'' \<in> set (template (rev (drop 5 (rev ?ps))))"
    by (simp add: creative_opening_def template_def ToString_def)
  have w: "\<not> is_ws (CHR ''H'')" by (simp add: is_ws_def)
  have a: "template (rev (take 5 (rev ?ps))) = [] @ before_instructions ri ja (Some ''creative'')"
    by (simp add: creative_opening_def template_def ToString_def before_instructions_def)
  from opening_end [OF rev_split c w a] show ?thesis .
qed

lemma creative_closing_start:
  "prefix (after_instructions (Some ''creative''))
     (trim_end (template (creative_closing ri ji ja)))"
proof -
  let ?ps = "creative_closing ri ji ja"
  have c: "CHR ''L'' \<in> set (template (drop 1 ?ps))"
    by (simp add: creative_closing_def template_def ToString_def)
  have w: "\<not> is_ws (CHR ''L'')" by (simp add: is_ws_def)
  have a: "template (take 1 ?ps) =
      after_instructions (Some ''creative'') @
      ''my creative approach and technical abilities can help ''"
    by (simp add: creative_closing_def template_def ToString_def after_instructions_def)
  from closing_start [OF take_split c w a] show ?thesis .
qed

lemma traditional_opening_end:
  "suffix (before_instructions ri ja (Some ''traditional''))
     (trim_start (template (traditional_opening today ri ji ja)))"
proof -
  let ?ps = "traditional_opening today ri ji ja"
  have c: "CHR ''H'' \<in> set (template (take 26 ?ps))"
    by (simp add: traditional_opening_def formattedDate_def template_def ToString_def)
  have w: "\<not> is_ws (CHR ''H'')" by (simp add: is_ws_def)
  have a: "template (drop 26 ?ps) = ''.'' @ before_instructions ri ja (Some ''traditional'')"
    by (simp add: traditional_opening_def formattedDate_def template_def ToString_def
          before_instructions_def)
  from opening_end [OF take_split c w a] show ?thesis .
qed

lemma traditional_closing_start:
  "prefix (after_instructions (Some ''traditional''))
     (trim_end (template (traditional_closing ri ji ja)))"
proof -
  let ?ps = "traditional_closing ri ji ja"
  have c: "CHR ''S'' \<in> set (template (drop 1 ?ps))"
    by (simp add: traditional_closing_def template_def ToString_def)
  have w: "\<not> is_ws (CHR ''S'')" by (simp add: is_ws_def)
  have a: "template (take 1 ?ps) = after_instructions (Some ''traditional'') @ []"
    by (simp add: traditional_closing_def template_def ToString_def after_instructions_def)
  from closing_start [OF take_split c w a] show ?thesis .
qed

subsection \<open>Interpolated values\<close>

text \<open>The first skill is the only value that the templates interpolate without a guard:
  when the skills list is not empty, no piece of a letter is undefined.\<close>

lemma js_or_None: "(None = js_or a b) \<longleftrightarrow> (\<not> truthy a \<and> b = None)"
  by (cases a) (auto simp: js_or_def truthy_def)

lemma js_nth_None: "(None = js_nth xs i) \<longleftrightarrow> length xs \<le> i"
  by (auto simp: js_nth_def)

lemma js_nth_first: "xs \<noteq> [] \<Longrightarrow> js_nth xs 0 = Some (xs ! 0)"
  by (simp add: js_nth_def)

lemma formattedDate_defined: "None \<notin> set (formattedDate today)"
  by (simp add: formattedDate_def)

lemma instructions_defined:
  "None \<notin> set (professional_specialInstructionsText si)"
  "None \<notin> set (modern_specialInstructionsText si)"
  "None \<notin> set (creative_specialInstructionsText si)"
  "None \<notin> set (traditional_specialInstructionsText si)"
  by (auto simp: professional_specialInstructionsText_def modern_specialInstructionsText_def
        creative_specialInstructionsText_def traditional_specialInstructionsText_def
        has_instructions_def split: option.splits)

lemma professional_parts_defined:
  "None \<notin> set (professional_educationText ri ja)"
  "None \<notin> set (relevantExperience ri)"
  "None \<notin> set (responsibilitiesText ja)"
  by (simp_all add: professional_educationText_def relevantExperience_def
        responsibilitiesText_def js_nth_def)

lemma professional_defined:
  "skills ri \<noteq> [] \<Longrightarrow> None \<notin> set (professional_pieces today ri ji ja si)"
  by (simp add: professional_pieces_def professional_opening_def professional_closing_def
        formattedDate_defined instructions_defined professional_parts_defined js_nth_None)

lemma modern_defined:
  "skills ri \<noteq> [] \<Longrightarrow> None \<notin> set (modern_pieces today ri ji ja si)"
  by (simp add: modern_pieces_def modern_opening_def modern_closing_def
        formattedDate_defined instructions_defined modern_educationText_def
        js_nth_None js_or_None)

lemma creative_parts_defined:
  "skills ri \<noteq> [] \<Longrightarrow> None \<notin> set (creative_educationText ri ja)"
  "None \<notin> set (creative_workHistoryText ri)"
  "skills ri \<noteq> [] \<Longrightarrow> None \<notin> set (uniqueSkills0 ri)"
  "None \<notin> set (uniqueSkills1 ri ja)"
  "None \<notin> set (uniqueSkills2 ri ja)"
  by (simp_all add: creative_educationText_def creative_workHistoryText_def uniqueSkills0_def
        uniqueSkills1_def uniqueSkills2_def js_nth_None js_or_None js_nth_first)

lemma creative_defined:
  "skills ri \<noteq> [] \<Longrightarrow> None \<notin> set (creative_pieces today ri ji ja si)"
  by (simp add: creative_pieces_def creative_opening_def creative_closing_def
        formattedDate_defined instructions_defined creative_parts_defined
        js_nth_None js_or_None js_nth_first)

lemma relevantSkills_nonempty: "skills ri \<noteq> [] \<Longrightarrow> relevantSkills ri ja \<noteq> []"
  by (simp add: relevantSkills_def)

lemma traditional_parts_defined:
  "skills ri \<noteq> [] \<Longrightarrow> None \<notin> set (traditional_educationText ri ja)"
  "None \<notin> set (traditional_workHistoryText ri)"
  by (simp_all add: traditional_educationText_def traditional_workHistoryText_def
        relevantSkills_nonempty js_nth_None)

lemma traditional_defined:
  "skills ri \<noteq> [] \<Longrightarrow> None \<notin> set (traditional_pieces today ri ji ja si)"
  by (simp add: traditional_pieces_def traditional_opening_def traditional_closing_def
        formattedDate_defined instructions_defined traditional_parts_defined js_nth_None)

subsection \<open>Evaluations at the empty text and at the examples\<close>

lemma extract_empty_parts:
  "js_match [] nameRegex = None"
  "js_match [] emailRegex = None"
  "phone_loop phoneRegexes [] [] = []"
  "filter address_line (split_char CHR 0x0A []) = []"
  "extract_skills [] = [''Data Analysis'', ''Python'', ''SQL'', ''Machine Learning'', ''Data Visualization'']"
  "extract_experience [] = ''experienced professional''"
  "extract_education [] = []"
  "extract_workHistory [] = [''Professional experience in data analysis and visualization'']"
  "trim (summary_loop (split_char CHR 0x0A []) False []) = []"
  by code_simp+

lemma analyze_empty_parts:
  "find_requirements [] = []"
  "find_responsibilities [] = []"
  "find_companyInsights [] = '''s commitment to excellence and innovation in the industry''"
  by code_simp+

lemma match_skills_no_requirements: "match_skills [] resumeSkills = take 3 resumeSkills"
  by (simp add: match_skills_def)

lemma two_triggers_code: "find_responsibilities two_triggers = [''writing documentation'', ''maintain servers daily'']"
  by code_simp

lemma two_triggers_first_match: "responsibilities_first_match two_triggers = [''writing documentation'']"
  by code_simp

lemma analyzeJob_fields:
  "requirements (analyzeJob jobDesc ri) = find_requirements jobDesc"
  "matchedSkills (analyzeJob jobDesc ri) = match_skills (find_requirements jobDesc) (skills ri)"
  "keyResponsibilities (analyzeJob jobDesc ri) = find_responsibilities jobDesc"
  "companyInsights (analyzeJob jobDesc ri) = find_companyInsights jobDesc"
  by (simp_all add: analyzeJob_def Let_def)

lemma extract_skills_nonempty: "extract_skills resumeText \<noteq> []"
  by (simp add: extract_skills_def Let_def defaultSkills_def)

lemma extract_workHistory_nonempty: "extract_workHistory resumeText \<noteq> []"
  by (simp add: extract_workHistory_def Let_def split: prod.splits)

lemma extract_experience_nonempty: "extract_experience resumeText \<noteq> []"
  by (simp add: extract_experience_def Let_def)

lemma exp_loop_no_match:
  "\<forall>re\<in>set rs. js_match resumeText re = None \<Longrightarrow> exp_loop rs resumeText = []"
  by (induction rs) auto

lemma work_loop_no_header:
  "\<forall>l\<in>set ls. \<not> js_test workHistoryRegex (trim l) \<Longrightarrow>
   work_loop ls False cur wh = (cur, wh)"
  by (induction ls) (auto simp: Let_def)

section \<open>The claims\<close>

text \<open>
  Claim C1. For every job description and every resume record, the matched skills that
  \<open>analyzeJob\<close> returns are skills of the resume. When no skill of the resume equals,
  letter case aside, a requirement found in the job description, they are the first
  three skills of the resume; otherwise they are the skills of the resume that equal
  such a requirement, in the order of the resume.
\<close>

theorem analyzeJob_matchedSkills:
  "set (matchedSkills (analyzeJob jobDesc ri)) \<subseteq> set (skills ri) \<and>
   ((\<forall>skill\<in>set (skills ri). \<forall>req\<in>set (requirements (analyzeJob jobDesc ri)).
        toLowerCase req \<noteq> toLowerCase skill) \<longrightarrow>
      matchedSkills (analyzeJob jobDesc ri) = take 3 (skills ri)) \<and>
   ((\<exists>skill\<in>set (skills ri). \<exists>req\<in>set (requirements (analyzeJob jobDesc ri)).
        toLowerCase req = toLowerCase skill) \<longrightarrow>
      matchedSkills (analyzeJob jobDesc ri) =
        filter (\<lambda>skill. \<exists>req\<in>set (requirements (analyzeJob jobDesc ri)).
                           toLowerCase req = toLowerCase skill) (skills ri))"
proof -
  let ?reqs = "find_requirements jobDesc"
  let ?found = "filter (\<lambda>skill. \<exists>req\<in>set ?reqs. toLowerCase req = toLowerCase skill) (skills ri)"
  have m: "matchedSkills (analyzeJob jobDesc ri) = (if ?found = [] then take 3 (skills ri) else ?found)"
    by (simp add: analyzeJob_def match_skills_def Let_def)
  have r: "requirements (analyzeJob jobDesc ri) = ?reqs"
    by (simp add: analyzeJob_def Let_def)
  have sub: "set (matchedSkills (analyzeJob jobDesc ri)) \<subseteq> set (skills ri)"
    unfolding m by (auto dest: in_set_takeD)
  have none: "?found = [] \<longleftrightarrow>
      (\<forall>skill\<in>set (skills ri). \<forall>req\<in>set ?reqs. toLowerCase req \<noteq> toLowerCase skill)"
    by (auto simp: filter_empty_conv)
  show ?thesis
    using sub none unfolding r m by auto
qed

theorem analyzeJob_matchedSkills_witness:
  "matchedSkills (analyzeJob ''Java'' sample_resume) = [''Python'', ''Excel'', ''SQL''] \<and>
   matchedSkills (analyzeJob ''Python and SQL'' sample_resume) = [''Python'', ''SQL''] \<and>
   set (matchedSkills (analyzeJob ''Python and SQL'' sample_resume)) \<subseteq> set (skills sample_resume)"
proof -
  have sk: "skills sample_resume = [''Python'', ''Excel'', ''SQL'', ''Git'']"
    by (simp add: sample_resume_def empty_resume_def)
  have r1: "requirements (analyzeJob ''Java'' sample_resume) = [''java'']"
    by code_simp
  have r2: "requirements (analyzeJob ''Python and SQL'' sample_resume) = [''python'', ''sql'']"
    by code_simp
  have h1: "\<forall>skill\<in>set (skills sample_resume).
              \<forall>req\<in>set (requirements (analyzeJob ''Java'' sample_resume)).
                toLowerCase req \<noteq> toLowerCase skill"
    unfolding r1 sk by code_simp
  have h2: "\<exists>skill\<in>set (skills sample_resume).
              \<exists>req\<in>set (requirements (analyzeJob ''Python and SQL'' sample_resume)).
                toLowerCase req = toLowerCase skill"
    unfolding r2 sk by code_simp
  have f2: "filter (\<lambda>skill. \<exists>req\<in>set [''python'', ''sql'']. toLowerCase req = toLowerCase skill)
              [''Python'', ''Excel'', ''SQL'', ''Git''] = [''Python'', ''SQL'']"
    by code_simp
  from analyzeJob_matchedSkills [of "''Java''" sample_resume] h1
  have a: "matchedSkills (analyzeJob ''Java'' sample_resume) = take 3 (skills sample_resume)"
    by blast
  from analyzeJob_matchedSkills [of "''Python and SQL''" sample_resume] h2
  have b: "matchedSkills (analyzeJob ''Python and SQL'' sample_resume) =
             filter (\<lambda>skill. \<exists>req\<in>set (requirements (analyzeJob ''Python and SQL'' sample_resume)).
                                toLowerCase req = toLowerCase skill) (skills sample_resume)"
    and c: "set (matchedSkills (analyzeJob ''Python and SQL'' sample_resume)) \<subseteq> set (skills sample_resume)"
    by blast+
  show ?thesis
    using a b c unfolding r2 sk f2 by simp
qed

text \<open>
  Claim C2, as stated: every vocabulary entry that occurs in the resume text, letter case
  aside, is among the extracted skills, and the extracted skills stand in the order of
  the vocabulary. The second part fails when no entry occurs: the skills are then the
  default list, which starts with Data Analysis before Python. The empty resume is such
  a text.
\<close>

theorem default_skills_not_in_vocabulary_order:
  "skills (extractResumeInfo [] None) =
     [''Data Analysis'', ''Python'', ''SQL'', ''Machine Learning'', ''Data Visualization''] \<and>
   \<not> subseq (skills (extractResumeInfo [] None)) skillsKeywords"
  by code_simp

text \<open>
  Claim C2, amended. Every vocabulary entry that occurs in the resume text, letter case
  aside, is among the extracted skills. When at least one entry occurs, the skills are
  exactly the entries that occur, in the order of the vocabulary; when none occurs, they
  are the default list.
\<close>

theorem extractResumeInfo_skills:
  "(\<forall>s\<in>set skillsKeywords.
      (\<exists>p q. toLowerCase resumeText = p @ toLowerCase s @ q) \<longrightarrow>
      s \<in> set (skills (extractResumeInfo resumeText up))) \<and>
   ((\<exists>s\<in>set skillsKeywords. \<exists>p q. toLowerCase resumeText = p @ toLowerCase s @ q) \<longrightarrow>
      skills (extractResumeInfo resumeText up) =
        filter (\<lambda>s. \<exists>p q. toLowerCase resumeText = p @ toLowerCase s @ q) skillsKeywords \<and>
      subseq (skills (extractResumeInfo resumeText up)) skillsKeywords) \<and>
   (\<not> (\<exists>s\<in>set skillsKeywords. \<exists>p q. toLowerCase resumeText = p @ toLowerCase s @ q) \<longrightarrow>
      skills (extractResumeInfo resumeText up) = defaultSkills)"
proof -
  let ?occurs = "\<lambda>s. \<exists>p q. toLowerCase resumeText = p @ toLowerCase s @ q"
  let ?found = "filter ?occurs skillsKeywords"
  have f: "filter (\<lambda>skill. js_includes (toLowerCase resumeText) (toLowerCase skill)) skillsKeywords
           = ?found"
    by (simp add: js_includes_iff)
  have s: "skills (extractResumeInfo resumeText up) = (if ?found = [] then defaultSkills else ?found)"
    by (simp add: extractResumeInfo_def extract_skills_def Let_def f)
  have e: "?found = [] \<longleftrightarrow> \<not> (\<exists>s\<in>set skillsKeywords. ?occurs s)"
    by (auto simp: filter_empty_conv)
  have o: "subseq ?found skillsKeywords"
    by simp
  have "\<forall>s\<in>set skillsKeywords. ?occurs s \<longrightarrow> s \<in> set (skills (extractResumeInfo resumeText up))"
  proof (intro ballI impI)
    fix s assume a: "s \<in> set skillsKeywords" "?occurs s"
    then have m: "s \<in> set ?found" by simp
    have ne: "xs \<noteq> []" if "x \<in> set xs" for x :: string and xs
      using that by auto
    from m ne [OF m] show "s \<in> set (skills (extractResumeInfo resumeText up))"
      by (simp only: s if_False)
  qed
  moreover have "(\<exists>s\<in>set skillsKeywords. ?occurs s) \<longrightarrow>
      skills (extractResumeInfo resumeText up) = ?found \<and>
      subseq (skills (extractResumeInfo resumeText up)) skillsKeywords"
    using e o s by auto
  moreover have "\<not> (\<exists>s\<in>set skillsKeywords. ?occurs s) \<longrightarrow>
      skills (extractResumeInfo resumeText up) = defaultSkills"
    using e s by auto
  ultimately show ?thesis by blast
qed

theorem extractResumeInfo_skills_witness:
  "''SQL'' \<in> set (skills (extractResumeInfo ''sql and python'' None)) \<and>
   subseq (skills (extractResumeInfo ''sql and python'' None)) skillsKeywords \<and>
   skills (extractResumeInfo ''sql and python'' None) = [''Python'', ''SQL'']"
proof -
  have v: "''SQL'' \<in> set skillsKeywords"
    by (simp add: skillsKeywords_def)
  have "toLowerCase ''sql and python'' = [] @ toLowerCase ''SQL'' @ '' and python''"
    by code_simp
  then have h: "\<exists>p q. toLowerCase ''sql and python'' = p @ toLowerCase ''SQL'' @ q"
    by blast
  have k: "skills (extractResumeInfo ''sql and python'' None) = [''Python'', ''SQL'']"
    by code_simp
  from extractResumeInfo_skills [of "''sql and python''" None] v h
  have "''SQL'' \<in> set (skills (extractResumeInfo ''sql and python'' None))"
    and "subseq (skills (extractResumeInfo ''sql and python'' None)) skillsKeywords"
    by blast+
  with k show ?thesis by simp
qed

text \<open>
  Claim C3. For every resume record, job, analysis and special instructions, a template
  style that is none of modern, creative, traditional and professional gives the same
  letter as the style professional, and so does a missing style. The letter is a string
  in every case: the model has no error value because no path of the function raises.
\<close>

theorem unknown_style_is_professional:
  "(style \<notin> {''modern'', ''creative'', ''traditional'', ''professional''} \<longrightarrow>
      generateCoverLetter today ri ji ja si (Some style) =
      generateCoverLetter today ri ji ja si (Some ''professional'')) \<and>
   generateCoverLetter today ri ji ja si None =
     generateCoverLetter today ri ji ja si (Some ''professional'') \<and>
   generateCoverLetter today ri ji ja si (Some ''professional'') =
     generateProfessionalTemplate today ri ji ja si"
  by (simp add: generateCoverLetter_def)

theorem unknown_style_is_professional_witness:
  "generateCoverLetter noon sample_resume acme_job empty_analysis None (Some ''nonsense'') =
   generateCoverLetter noon sample_resume acme_job empty_analysis None (Some ''professional'')"
proof -
  have "''nonsense'' \<notin> {''modern'', ''creative'', ''traditional'', ''professional''}"
    by simp
  with unknown_style_is_professional [of "''nonsense''" noon sample_resume acme_job empty_analysis None]
  show ?thesis by blast
qed

text \<open>
  Claim C4. The extractor applied to the empty resume text, with a profile that overrides
  nothing, returns this record: name, email, phone, address, education and bio are the
  empty string, and skills, experience and work history have their default values (the
  five default skills, the text "experienced professional", the placeholder sentence).
  The result is a record in every case: no path of the extractor raises.
\<close>

theorem extractResumeInfo_empty_text:
  "no_override up \<Longrightarrow>
   extractResumeInfo [] up =
     \<lparr>name = [], email = [], phone = [], address = [],
      skills = [''Data Analysis'', ''Python'', ''SQL'', ''Machine Learning'', ''Data Visualization''],
      experience = ''experienced professional'',
      education = [],
      workHistory = [''Professional experience in data analysis and visualization''],
      bio = []\<rparr>"
  unfolding extractResumeInfo_def extract_name_def extract_email_def extract_phone_def
    extract_address_def extract_bio_def Let_def extract_empty_parts no_override_def
  by (simp add: extract_empty_parts(3))

theorem extractResumeInfo_empty_text_witness:
  "extractResumeInfo [] None =
     \<lparr>name = [], email = [], phone = [], address = [],
      skills = [''Data Analysis'', ''Python'', ''SQL'', ''Machine Learning'', ''Data Visualization''],
      experience = ''experienced professional'',
      education = [],
      workHistory = [''Professional experience in data analysis and visualization''],
      bio = []\<rparr> \<and>
   extractResumeInfo [] (Some absent_fields) = extractResumeInfo [] None"
proof -
  have a: "no_override None"
    by (simp add: no_override_def profile_field_def)
  have b: "no_override (Some absent_fields)"
    by (simp add: no_override_def profile_field_def absent_fields_def)
  from extractResumeInfo_empty_text [OF a] extractResumeInfo_empty_text [OF b]
  show ?thesis by simp
qed

text \<open>
  Claim C5, as stated: on the empty job description the requirements, the matched skills
  and the key responsibilities are all empty. The matched skills are not: with no
  requirement found, the fallback copies the first three skills of the resume.
\<close>

theorem empty_job_matchedSkills_not_empty:
  "matchedSkills (analyzeJob [] sample_resume) = [''Python'', ''Excel'', ''SQL'']"
  by (simp add: analyzeJob_def analyze_empty_parts match_skills_no_requirements
        sample_resume_def empty_resume_def)

text \<open>
  Claim C5, amended. On the empty job description, for every resume record, the
  requirements and the key responsibilities are empty, the matched skills are the first
  three skills of the resume (empty only when the resume has no skills), and the company
  insight is the generic sentence built on the empty first word. Splitting the empty
  string gives one empty piece, so nothing raises.
\<close>

theorem analyzeJob_empty_description:
  "analyzeJob [] ri =
     \<lparr>requirements = [],
      matchedSkills = take 3 (skills ri),
      keyResponsibilities = [],
      companyInsights = '''s commitment to excellence and innovation in the industry''\<rparr>"
  by (simp add: analyzeJob_def analyze_empty_parts match_skills_no_requirements)

theorem analyzeJob_empty_description_witness:
  "analyzeJob [] sample_resume =
     \<lparr>requirements = [],
      matchedSkills = [''Python'', ''Excel'', ''SQL''],
      keyResponsibilities = [],
      companyInsights = '''s commitment to excellence and innovation in the industry''\<rparr>"
  using analyzeJob_empty_description [of sample_resume]
  by (simp add: sample_resume_def empty_resume_def)

text \<open>
  Claim C6, as stated: in every style the strings "none" and "n/a" and the empty or blank
  string count as no special instructions, and nothing of them reaches the letter. The
  test in the four templates compares with "none" only: "n/a" is spliced into the letter
  like any other instruction.
\<close>

theorem na_instructions_are_spliced:
  "js_includes (generateCoverLetter noon sample_resume acme_job empty_analysis
                  (Some ''n/a'') (Some ''professional'')) ''n/a'' \<and>
   \<not> js_includes (generateCoverLetter noon sample_resume acme_job empty_analysis
                    None (Some ''professional'')) ''n/a''"
  by code_simp

text \<open>
  Claim C6, amended. For every style and all arguments, the letter is the opening of the
  style with the white space at its head removed, then the instruction text, then the
  closing of the style with the white space at its end removed. The instruction text is
  empty when the instructions are missing, the empty string, a string that is "none"
  when lowered, or a string of white space only. For any other string, "n/a" included,
  it is the string itself, unchanged, after a blank line for professional (and every
  unknown style), after a line break for modern, between "SPECIAL NOTE: " on a new line
  and a line break for creative, between "I would like to note that " on a new line and
  a line break for traditional. The place is inside the letter, not at its end: the
  text before it ends with the paragraph "... to your esteemed organization." for
  professional, with the bullets of RELEVANT SKILLS for modern, with the bullet
  "... ready to make an immediate impact" for creative, and with the paragraph
  "... contribute to team success." and the sentences on work history and education for
  traditional; the text after it starts with a blank line and the next paragraph.
\<close>

theorem special_instructions_spliced:
  "generateCoverLetter today ri ji ja si templateStyle =
     trim_start (template (letter_opening today ri ji ja templateStyle)) @
     (case si of
        None \<Rightarrow> []
      | Some s \<Rightarrow>
          if s = [] \<or> toLowerCase s = ''none'' \<or> (\<forall>c\<in>set s. is_ws c) then []
          else instruction_lead templateStyle @ s @ instruction_trail templateStyle) @
     trim_end (template (letter_closing ri ji ja templateStyle)) \<and>
   suffix (before_instructions ri ja templateStyle)
     (trim_start (template (letter_opening today ri ji ja templateStyle))) \<and>
   prefix (after_instructions templateStyle)
     (trim_end (template (letter_closing ri ji ja templateStyle)))"
proof -
  consider (m) "templateStyle = Some ''modern''" | (c) "templateStyle = Some ''creative''"
    | (t) "templateStyle = Some ''traditional''"
    | (p) "templateStyle \<notin> {Some ''modern'', Some ''creative'', Some ''traditional''}"
    by blast
  then show ?thesis
  proof cases
    case m
    have "letter_opening today ri ji ja templateStyle = modern_opening today ri ji ja"
      and "letter_closing ri ji ja templateStyle = modern_closing ri ji ja"
      by (simp_all add: m letter_opening_def letter_closing_def)
    moreover have "generateCoverLetter today ri ji ja si templateStyle =
        generateModernTemplate today ri ji ja si"
      by (simp add: m generateCoverLetter_def)
    ultimately show ?thesis
      using modern_opening_end [of ri ja today ji] modern_closing_start [of ri ji ja]
      by (simp add: m modern_shape has_instructions_iff trim_start_def trim_end_def
            instruction_lead_def instruction_trail_def split: option.splits)
  next
    case c
    have "letter_opening today ri ji ja templateStyle = creative_opening today ri ji ja"
      and "letter_closing ri ji ja templateStyle = creative_closing ri ji ja"
      by (simp_all add: c letter_opening_def letter_closing_def)
    moreover have "generateCoverLetter today ri ji ja si templateStyle =
        generateCreativeTemplate today ri ji ja si"
      by (simp add: c generateCoverLetter_def)
    ultimately show ?thesis
      using creative_opening_end [of ri ja today ji] creative_closing_start [of ri ji ja]
      by (simp add: c creative_shape has_instructions_iff trim_start_def trim_end_def
            instruction_lead_def instruction_trail_def split: option.splits)
  next
    case t
    have "letter_opening today ri ji ja templateStyle = traditional_opening today ri ji ja"
      and "letter_closing ri ji ja templateStyle = traditional_closing ri ji ja"
      by (simp_all add: t letter_opening_def letter_closing_def)
    moreover have "generateCoverLetter today ri ji ja si templateStyle =
        generateTraditionalTemplate today ri ji ja si"
      by (simp add: t generateCoverLetter_def)
    ultimately show ?thesis
      using traditional_opening_end [of ri ja today ji] traditional_closing_start [of ri ji ja]
      by (simp add: t traditional_shape has_instructions_iff trim_start_def trim_end_def
            instruction_lead_def instruction_trail_def split: option.splits)
  next
    case p
    have "letter_opening today ri ji ja templateStyle = professional_opening today ri ji ja"
      and "letter_closing ri ji ja templateStyle = professional_closing ri ji ja"
      using p by (simp_all add: letter_opening_def letter_closing_def)
    moreover have "generateCoverLetter today ri ji ja si templateStyle =
        generateProfessionalTemplate today ri ji ja si"
      using p by (cases templateStyle) (auto simp: generateCoverLetter_def)
    moreover from p have "instruction_lead templateStyle = ''\<newline>\<newline>''"
      and "instruction_trail templateStyle = []"
      and "before_instructions ri ja templateStyle =
           before_instructions ri ja (Some ''professional'')"
      and "after_instructions templateStyle = after_instructions (Some ''professional'')"
      by (auto simp: instruction_lead_def instruction_trail_def before_instructions_def
            after_instructions_def)
    ultimately show ?thesis
      using professional_opening_end [of ri ja today ji] professional_closing_start [of ri ji ja]
      by (simp add: professional_shape has_instructions_iff trim_start_def trim_end_def
            split: option.splits)
  qed
qed

theorem special_instructions_spliced_witness:
  "\<exists>pre post.
     generateCoverLetter noon sample_resume acme_job empty_analysis None (Some ''creative'') =
       pre @ post \<and>
     generateCoverLetter noon sample_resume acme_job empty_analysis (Some ''None'')
         (Some ''creative'') =
       pre @ post \<and>
     generateCoverLetter noon sample_resume acme_job empty_analysis (Some [CHR 0x20, CHR 0xA0])
         (Some ''creative'') =
       pre @ post \<and>
     generateCoverLetter noon sample_resume acme_job empty_analysis (Some ''Please call'')
         (Some ''creative'') =
       pre @ ''\<newline>SPECIAL NOTE: Please call\<newline>'' @ post \<and>
     suffix '' ready to make an immediate impact'' pre \<and>
     prefix ''\<newline>\<newline>I'd love to show you how '' post"
proof -
  let ?pre = "trim_start (template (letter_opening noon sample_resume acme_job empty_analysis
                (Some ''creative'')))"
  let ?post = "trim_end (template (letter_closing sample_resume acme_job empty_analysis
                (Some ''creative'')))"
  note a = special_instructions_spliced [of noon sample_resume acme_job empty_analysis _
             "Some ''creative''"]
  have l: "toLowerCase ''None'' = ''none''" "toLowerCase ''Please call'' \<noteq> ''none''"
    by code_simp+
  have 1: "generateCoverLetter noon sample_resume acme_job empty_analysis None (Some ''creative'') =
             ?pre @ ?post"
    using a [of None] by simp
  have 2: "generateCoverLetter noon sample_resume acme_job empty_analysis (Some ''None'')
             (Some ''creative'') = ?pre @ ?post"
    using a [of "Some ''None''"] l by simp
  have 3: "generateCoverLetter noon sample_resume acme_job empty_analysis
             (Some [CHR 0x20, CHR 0xA0]) (Some ''creative'') = ?pre @ ?post"
    using a [of "Some [CHR 0x20, CHR 0xA0]"] by (simp add: is_ws_def)
  have 4: "generateCoverLetter noon sample_resume acme_job empty_analysis (Some ''Please call'')
             (Some ''creative'') = ?pre @ ''\<newline>SPECIAL NOTE: Please call\<newline>'' @ ?post"
    using a [of "Some ''Please call''"] l
    by (simp add: is_ws_def instruction_lead_def instruction_trail_def)
  have "suffix (before_instructions sample_resume empty_analysis (Some ''creative'')) ?pre"
    using a [of None] by simp
  then obtain zs where "?pre = zs @ ''\<newline>'' @ bullet @ '' '' @ experience sample_resume @
               '' ready to make an immediate impact''"
    unfolding suffix_def before_instructions_def by auto
  then have "?pre = (zs @ ''\<newline>'' @ bullet @ '' '' @ experience sample_resume) @
               '' ready to make an immediate impact''"
    by simp
  then have 5: "suffix '' ready to make an immediate impact'' ?pre"
    by (rule suffixI)
  have 6: "prefix ''\<newline>\<newline>I'd love to show you how '' ?post"
    using a [of None] by (simp add: after_instructions_def)
  show ?thesis
    apply (rule exI [of _ ?pre])
    apply (rule exI [of _ ?post])
    by (intro conjI 1 2 3 4 5 6)
qed

text \<open>
  Claim C7, as stated: the first responsibility pattern that matches wins, and only its
  group is split into fragments. The loop over the patterns has no \<^verbatim>\<open>break\<close>: on a
  description where two patterns match, the fragments of both are kept.
\<close>

theorem responsibilities_not_first_match:
  "keyResponsibilities (analyzeJob two_triggers sample_resume) =
     [''writing documentation'', ''maintain servers daily''] \<and>
   responsibilities_first_match two_triggers = [''writing documentation'']"
  by (simp add: analyzeJob_fields two_triggers_code two_triggers_first_match)

text \<open>
  Claim C7, amended. The key responsibilities are computed by trying the five patterns
  in their fixed order; every pattern that matches with a non-empty first group
  contributes the fragments of that group (split on commas and semicolons, trimmed,
  longer than 10 characters), in the order of the patterns. When this gives no fragment
  at all, the sentences between runs of \<^verbatim>\<open>.!?\<close> that contain an action verb are
  taken instead, trimmed. On both paths at most the first 3 entries are kept.
\<close>

theorem keyResponsibilities_all_matches:
  "keyResponsibilities (analyzeJob jobDesc ri) = responsibilities_all_matches jobDesc \<and>
   length (keyResponsibilities (analyzeJob jobDesc ri)) \<le> 3"
  by (simp add: analyzeJob_fields find_responsibilities_eq responsibilities_all_matches_def)

theorem keyResponsibilities_all_matches_witness:
  "keyResponsibilities (analyzeJob two_triggers sample_resume) =
     [''writing documentation'', ''maintain servers daily''] \<and>
   responsibilities_all_matches two_triggers =
     [''writing documentation'', ''maintain servers daily'']"
  using keyResponsibilities_all_matches [of two_triggers sample_resume]
  by (simp add: analyzeJob_fields two_triggers_code)

text \<open>
  Claim C8: for every style, when optional fields of the resume record or of the
  analysis are empty (the skills list among them), the letter never contains the text
  "undefined" or "null", and no unresolved placeholder. The code does not keep this.
  Each of the four templates interpolates \<^verbatim>\<open>skills[0]\<close> with no fallback, while it
  guards \<^verbatim>\<open>skills[1]\<close>, the matched skills, the key responsibilities and the work
  history: for the resume record with all fields empty, the letter of every style
  contains "undefined". The letters of the professional and the traditional style also
  carry the line "[Company Address]", which no argument fills.
\<close>

theorem empty_skills_print_undefined:
  "js_includes (generateCoverLetter noon empty_resume acme_job empty_analysis None
                  (Some ''professional'')) ''My experience with undefined positions me'' \<and>
   js_includes (generateCoverLetter noon empty_resume acme_job empty_analysis None
                  (Some ''modern'')) ''with a focus on undefined and data analysis'' \<and>
   js_includes (generateCoverLetter noon empty_resume acme_job empty_analysis None
                  (Some ''creative'')) ''my passion for undefined with my skills in'' \<and>
   js_includes (generateCoverLetter noon empty_resume acme_job empty_analysis None
                  (Some ''traditional'')) ''strong skills in , and undefined.'' \<and>
   js_includes (generateCoverLetter noon empty_resume acme_job empty_analysis None
                  (Some ''professional'')) ''\<newline>[Company Address]\<newline>'' \<and>
   js_includes (generateCoverLetter noon empty_resume acme_job empty_analysis None
                  (Some ''traditional'')) ''\<newline>[Company Address]\<newline>''"
  by code_simp

text \<open>
  Claim C9. The three functions are functions of their arguments, and of the clock
  reading in the case of \<open>generateCoverLetter\<close>: equal arguments and an equal reading
  give the same result. More than that holds. The letter depends on the clock only
  through the calendar day; the extracted record depends on the profile only through
  the five properties that are read; the analysis depends on the resume record only
  through its skills.
\<close>

theorem outputs_determined_by_inputs:
  "(same_day ta tb \<longrightarrow>
      generateCoverLetter ta ri ji ja si templateStyle =
      generateCoverLetter tb ri ji ja si templateStyle) \<and>
   (profile_field upa profile_name = profile_field upb profile_name \<and>
    profile_field upa profile_email = profile_field upb profile_email \<and>
    profile_field upa profile_phone = profile_field upb profile_phone \<and>
    profile_field upa profile_address = profile_field upb profile_address \<and>
    profile_field upa profile_bio = profile_field upb profile_bio \<longrightarrow>
      extractResumeInfo resumeText upa = extractResumeInfo resumeText upb) \<and>
   (skills ri = skills rj \<longrightarrow> analyzeJob jobDesc ri = analyzeJob jobDesc rj)"
proof (intro conjI impI)
  assume "same_day ta tb"
  then have "formattedDate ta = formattedDate tb"
    by (simp add: same_day_def formattedDate_def)
  then have "professional_opening ta ri ji ja = professional_opening tb ri ji ja"
    and "modern_opening ta ri ji ja = modern_opening tb ri ji ja"
    and "creative_opening ta ri ji ja = creative_opening tb ri ji ja"
    and "traditional_opening ta ri ji ja = traditional_opening tb ri ji ja"
    by (simp_all only: professional_opening_def modern_opening_def creative_opening_def
          traditional_opening_def)
  then show "generateCoverLetter ta ri ji ja si templateStyle =
             generateCoverLetter tb ri ji ja si templateStyle"
    by (simp only: generateCoverLetter_def generateModernTemplate_def
          generateCreativeTemplate_def generateTraditionalTemplate_def
          generateProfessionalTemplate_def professional_pieces_def modern_pieces_def
          creative_pieces_def traditional_pieces_def)
next
  assume "profile_field upa profile_name = profile_field upb profile_name \<and>
    profile_field upa profile_email = profile_field upb profile_email \<and>
    profile_field upa profile_phone = profile_field upb profile_phone \<and>
    profile_field upa profile_address = profile_field upb profile_address \<and>
    profile_field upa profile_bio = profile_field upb profile_bio"
  then show "extractResumeInfo resumeText upa = extractResumeInfo resumeText upb"
    by (simp only: extractResumeInfo_def extract_name_def extract_email_def extract_phone_def
          extract_address_def extract_bio_def)
next
  assume "skills ri = skills rj"
  then show "analyzeJob jobDesc ri = analyzeJob jobDesc rj"
    by (simp only: analyzeJob_def)
qed

theorem outputs_determined_by_inputs_witness:
  "generateCoverLetter noon sample_resume acme_job empty_analysis None None =
     generateCoverLetter evening sample_resume acme_job empty_analysis None None \<and>
   extractResumeInfo ''sql and python'' None =
     extractResumeInfo ''sql and python'' (Some absent_fields) \<and>
   analyzeJob ''Java'' sample_resume = analyzeJob ''Java'' (sample_resume\<lparr>name := ''Jane Roe''\<rparr>)"
proof -
  have d: "same_day noon evening"
    by (simp add: same_day_def noon_def evening_def)
  have p: "profile_field None f = profile_field (Some absent_fields) f"
    if "f = profile_name \<or> f = profile_email \<or> f = profile_phone \<or> f = profile_address \<or>
        f = profile_bio" for f
    using that by (auto simp: profile_field_def absent_fields_def)
  have s: "skills sample_resume = skills (sample_resume\<lparr>name := ''Jane Roe''\<rparr>)"
    by simp
  from outputs_determined_by_inputs
         [where ta = noon and tb = evening and ri = sample_resume and ji = acme_job
            and ja = empty_analysis and si = None and templateStyle = None
            and upa = None and upb = "Some absent_fields"
            and resumeText = "''sql and python''"
            and rj = "sample_resume\<lparr>name := ''Jane Roe''\<rparr>" and jobDesc = "''Java''"]
       d p s
  show ?thesis by blast
qed

text \<open>
  Claim C10. For every resume text and every profile, the extracted record has at least
  one skill, at least one work history entry and a non-empty experience text, so that
  \<^verbatim>\<open>skills[0]\<close> and \<^verbatim>\<open>workHistory[0]\<close> are defined. When no vocabulary entry
  occurs in the text the skills are the default list, when no line holds a work history
  header the work history is the placeholder sentence, and when no years pattern matches
  the experience is "experienced professional".
\<close>

theorem extractResumeInfo_never_empty:
  "1 \<le> length (skills (extractResumeInfo resumeText up)) \<and>
   1 \<le> length (workHistory (extractResumeInfo resumeText up)) \<and>
   experience (extractResumeInfo resumeText up) \<noteq> [] \<and>
   js_nth (skills (extractResumeInfo resumeText up)) 0 \<noteq> None \<and>
   js_nth (workHistory (extractResumeInfo resumeText up)) 0 \<noteq> None \<and>
   ((\<forall>s\<in>set skillsKeywords. \<not> js_includes (toLowerCase resumeText) (toLowerCase s)) \<longrightarrow>
      skills (extractResumeInfo resumeText up) = defaultSkills) \<and>
   ((\<forall>l\<in>set (split_char CHR 0x0A resumeText). \<not> js_test workHistoryRegex (trim l)) \<longrightarrow>
      workHistory (extractResumeInfo resumeText up) = [workHistoryPlaceholder]) \<and>
   ((\<forall>re\<in>set expRegexes. js_match resumeText re = None) \<longrightarrow>
      experience (extractResumeInfo resumeText up) = ''experienced professional'')"
proof -
  have "skills (extractResumeInfo resumeText up) \<noteq> []"
    and "workHistory (extractResumeInfo resumeText up) \<noteq> []"
    and "experience (extractResumeInfo resumeText up) \<noteq> []"
    by (simp_all add: extractResumeInfo_def extract_skills_nonempty
          extract_workHistory_nonempty extract_experience_nonempty)
  then have a:
    "1 \<le> length (skills (extractResumeInfo resumeText up)) \<and>
     1 \<le> length (workHistory (extractResumeInfo resumeText up)) \<and>
     experience (extractResumeInfo resumeText up) \<noteq> [] \<and>
     js_nth (skills (extractResumeInfo resumeText up)) 0 \<noteq> None \<and>
     js_nth (workHistory (extractResumeInfo resumeText up)) 0 \<noteq> None"
    by (simp add: js_nth_def Suc_le_eq)
  have b: "(\<forall>s\<in>set skillsKeywords. \<not> js_includes (toLowerCase resumeText) (toLowerCase s)) \<longrightarrow>
      skills (extractResumeInfo resumeText up) = defaultSkills"
    by (simp add: extractResumeInfo_def extract_skills_def Let_def filter_empty_conv)
  have c: "(\<forall>l\<in>set (split_char CHR 0x0A resumeText). \<not> js_test workHistoryRegex (trim l)) \<longrightarrow>
      workHistory (extractResumeInfo resumeText up) = [workHistoryPlaceholder]"
    by (simp add: extractResumeInfo_def extract_workHistory_def work_loop_no_header)
  have d: "(\<forall>re\<in>set expRegexes. js_match resumeText re = None) \<longrightarrow>
      experience (extractResumeInfo resumeText up) = ''experienced professional''"
    by (simp add: extractResumeInfo_def extract_experience_def exp_loop_no_match)
  from a b c d show ?thesis by blast
qed

theorem extractResumeInfo_never_empty_witness:
  "skills (extractResumeInfo ''no match'' None) = defaultSkills \<and>
   workHistory (extractResumeInfo ''no match'' None) = [workHistoryPlaceholder] \<and>
   experience (extractResumeInfo ''no match'' None) = ''experienced professional'' \<and>
   js_nth (skills (extractResumeInfo ''no match'' None)) 0 = Some ''Data Analysis''"
proof -
  have h1: "\<forall>s\<in>set skillsKeywords. \<not> js_includes (toLowerCase ''no match'') (toLowerCase s)"
    by code_simp
  have h2: "\<forall>l\<in>set (split_char CHR 0x0A ''no match''). \<not> js_test workHistoryRegex (trim l)"
    by code_simp
  have h3: "\<forall>re\<in>set expRegexes. js_match ''no match'' re = None"
    by code_simp
  from extractResumeInfo_never_empty [of "''no match''" None] h1 h2 h3
  have "skills (extractResumeInfo ''no match'' None) = defaultSkills"
    and "workHistory (extractResumeInfo ''no match'' None) = [workHistoryPlaceholder]"
    and "experience (extractResumeInfo ''no match'' None) = ''experienced professional''"
    by blast+
  then show ?thesis by (simp add: js_nth_def defaultSkills_def)
qed

end
